theory Spec2Isabelle
  imports Main
begin

section \<open>The embedding\<close>

text \<open>
  The TypeScript sources are embedded function by function. Mutable objects are passed
  and returned explicitly, every \<^verbatim>\<open>throw\<close> is a value of the type \<open>error\<close>, optional
  fields are \<open>option\<close>s, and collaborators outside the repository (the resource engine,
  the cloud SDK, the docker helper, the hash function) are parameters of the functions
  that call them. Counts of availability zones and NAT gateways are natural numbers.
\<close>

subsection \<open>Errors and deferred values\<close>

text \<open>
  Every \<^verbatim>\<open>throw\<close> of the modelled code is a value of \<open>error\<close>:
  \<^item> \<open>NatGatewaysExceedZones g z\<close>: \<^verbatim>\<open>[numberOfNatGateways] cannot be greater than
    [numberOfAvailabilityZones]: g > z\<close> (Vpc constructor);
  \<^item> \<open>InvalidContainerDefinition\<close>: \<^verbatim>\<open>Invalid container definition: `image`, `build`, or
    `function` must be provided\<close> (computeImage);
  \<^item> \<open>NoContainerName\<close>: \<^verbatim>\<open>No valid container name found to run task for.\<close> (runTask);
  \<^item> \<open>FailedToStartTask fs\<close>: \<^verbatim>\<open>"Failed to start task:" + JSON.stringify(res.failures)\<close>
    (runTask), carrying the failures that are serialised into the message;
  \<^item> \<open>TypeError\<close>: the runtime's error on reading a property of \<^verbatim>\<open>undefined\<close>;
  \<^item> \<open>TopologyError m\<close>: an error thrown inside \<^verbatim>\<open>VpcTopology\<close>;
  \<^item> \<open>External m\<close>: an error raised by a collaborator outside the repository (a
    rejected SDK request, a missing configuration value).
\<close>

record Failure =
  failureArn :: "string option"
  failureReason :: "string option"

datatype error =
    NatGatewaysExceedZones nat nat
  | InvalidContainerDefinition
  | NoContainerName
  | FailedToStartTask "Failure list"
  | TypeError
  | TopologyError string
  | External string

text \<open>
  A \<^verbatim>\<open>pulumi.Input<T>\<close> is a plain value, or a promise or output that carries the value
  later. Both a promise and an output are objects, hence truthy whatever they carry.
\<close>

datatype 'a Input = Plain 'a | Deferred 'a

fun truthy :: "string Input \<Rightarrow> bool" where
  "truthy (Plain s) = (s \<noteq> [])"
| "truthy (Deferred s) = True"

subsection \<open>utils.ts\<close>

text \<open>
  \<^verbatim>\<open>sha1hash\<close> keeps the first eight characters of the hexadecimal SHA-1 digest. The
  digest itself (Node's \<^verbatim>\<open>crypto\<close>) is the parameter \<open>sha1\<close>.
\<close>

definition sha1hash :: "(string \<Rightarrow> string) \<Rightarrow> string \<Rightarrow> string" where
  "sha1hash sha1 s = take 8 (sha1 s)"

text \<open>\<^verbatim>\<open>combineArrays\<close>: \<^verbatim>\<open>e1 = e1 || []; e2 = e2 || []; return [...e1, ...e2]\<close>.\<close>

definition combineArrays :: "'a list option \<Rightarrow> 'a list option \<Rightarrow> 'a list" where
  "combineArrays e1 e2 =
     (let e1 = (case e1 of None \<Rightarrow> [] | Some a \<Rightarrow> a);
          e2 = (case e2 of None \<Rightarrow> [] | Some a \<Rightarrow> a)
      in e1 @ e2)"


subsection \<open>Port mappings\<close>

text \<open>
  An \<^verbatim>\<open>aws.ecs.PortMapping\<close> has a required \<^verbatim>\<open>containerPort\<close> and optional
  \<^verbatim>\<open>hostPort\<close> and \<^verbatim>\<open>protocol\<close>; an absent optional field (\<^verbatim>\<open>undefined\<close>) is \<open>None\<close>.
\<close>

record PortMapping =
  containerPort :: int
  hostPort :: "int option"
  protocol :: "string option"

text \<open>
  \<^verbatim>\<open>initializePortMapping\<close> (experimental/containerDefinition.ts) assigns
  \<^verbatim>\<open>portMapping.hostPort = portMapping.containerPort\<close> when the host port is
  \<^verbatim>\<open>undefined\<close> and returns the mapping.
\<close>

definition initializePortMapping :: "PortMapping \<Rightarrow> PortMapping" where
  "initializePortMapping portMapping =
     (if hostPort portMapping = None
      then portMapping\<lparr>hostPort := Some (containerPort portMapping)\<rparr>
      else portMapping)"

text \<open>
  \<^verbatim>\<open>convertMappings\<close> walks the mappings in order, copies each one, fills in the host
  port of the copy and pushes the copy on \<^verbatim>\<open>result\<close>.
\<close>

fun convertMappings_loop :: "PortMapping list \<Rightarrow> PortMapping list \<Rightarrow> PortMapping list" where
  "convertMappings_loop [] result = result"
| "convertMappings_loop (mapping # rest) result =
     (let copy = mapping;
          copy = (if hostPort copy = None
                  then copy\<lparr>hostPort := Some (containerPort copy)\<rparr>
                  else copy)
      in convertMappings_loop rest (result @ [copy]))"

definition convertMappings :: "PortMapping list \<Rightarrow> PortMapping list" where
  "convertMappings mappings = convertMappings_loop mappings []"


subsection \<open>The container definition assembler of awsx\<close>

text \<open>
  An \<^verbatim>\<open>aws.ecs.KeyValuePair\<close> is \<^verbatim>\<open>{name, value}\<close>; a log configuration is
  \<^verbatim>\<open>{logDriver, options}\<close>.
\<close>

record KeyValuePair =
  kvName :: string
  kvValue :: string

record LogConfiguration =
  logDriver :: string
  logOptions :: "(string \<times> string) list"

text \<open>
  The \<^verbatim>\<open>image\<close> of a \<^verbatim>\<open>Container\<close> is an image name or a \<^verbatim>\<open>ContainerImageProvider\<close>,
  an object with the two methods \<^verbatim>\<open>image(parent)\<close> and \<^verbatim>\<open>environment(parent)\<close>.
  \<^verbatim>\<open>combineArrays\<close> accepts \<^verbatim>\<open>undefined\<close> for either list, so the provider's environment
  is an optional list here. A port mapping is given directly or by a
  \<^verbatim>\<open>ContainerPortMappingProvider\<close>, whose \<^verbatim>\<open>containerPortMapping()\<close> yields it.
\<close>

datatype 'p ContainerImage =
    ImageName string
  | ImageProvider "'p \<Rightarrow> string" "'p \<Rightarrow> KeyValuePair list option"

datatype PortMappingSource =
    MappingInput PortMapping
  | MappingProvider PortMapping

record 'p Container =
  environment :: "KeyValuePair list option"
  image :: "'p ContainerImage"
  portMappings :: "PortMappingSource list option"
  logConfiguration :: "LogConfiguration option"

text \<open>
  \<^verbatim>\<open>isContainerImageProvider(obj)\<close> is \<^verbatim>\<open>obj && !!obj.image && !!obj.environment\<close>: a string
  has neither property, a provider has both methods.
\<close>

fun isContainerImageProvider :: "'p ContainerImage \<Rightarrow> bool" where
  "isContainerImageProvider (ImageName s) = False"
| "isContainerImageProvider (ImageProvider im env) = True"

fun containerPortMapping :: "PortMappingSource \<Rightarrow> PortMapping" where
  "containerPortMapping (MappingInput m) = m"
| "containerPortMapping (MappingProvider m) = m"

definition getPortMappings :: "'p Container \<Rightarrow> PortMapping list option" where
  "getPortMappings container =
     (case portMappings container of
        None \<Rightarrow> None
      | Some objs \<Rightarrow> Some (convertMappings (map containerPortMapping objs)))"

text \<open>
  The assembled \<^verbatim>\<open>aws.ecs.ContainerDefinition\<close>, with the fields the function computes
  (the remaining fields of the container are spread into it unchanged).
\<close>

record ContainerDefinitionJson =
  defName :: string
  defImage :: string
  defEnvironment :: "KeyValuePair list option"
  defPortMappings :: "PortMapping list option"
  defLogConfiguration :: LogConfiguration

text \<open>
  \<^verbatim>\<open>computeContainerDefinition\<close> of awsx. \<open>logGroupId\<close> is the resolved id of the log group,
  \<open>requireRegion\<close> the outcome of \<^verbatim>\<open>aws.config.requireRegion()\<close>, which is evaluated only
  when the container has no log configuration of its own.
\<close>

definition computeContainerDefinition ::
  "'p \<Rightarrow> string \<Rightarrow> string \<Rightarrow> 'p Container \<Rightarrow> string \<Rightarrow> error + string
     \<Rightarrow> error + ContainerDefinitionJson" where
  "computeContainerDefinition parent name containerName container logGroupId requireRegion =
     (let image1 = (case image container of
                     ImageProvider im env \<Rightarrow> im parent
                   | ImageName s \<Rightarrow> s);
          environment1 = (case image container of
                           ImageProvider im env \<Rightarrow>
                             Some (combineArrays (environment container) (env parent))
                         | ImageName s \<Rightarrow> environment container);
          portMappings1 = getPortMappings container
      in case logConfiguration container of
           Some lc \<Rightarrow>
             Inr \<lparr>defName = containerName, defImage = image1, defEnvironment = environment1,
                  defPortMappings = portMappings1, defLogConfiguration = lc\<rparr>
         | None \<Rightarrow>
             (case requireRegion of
                Inl e \<Rightarrow> Inl e
              | Inr region \<Rightarrow>
                  Inr \<lparr>defName = containerName, defImage = image1, defEnvironment = environment1,
                       defPortMappings = portMappings1,
                       defLogConfiguration =
                         \<lparr>logDriver = ''awslogs'',
                          logOptions = [(''awslogs-group'', logGroupId),
                                        (''awslogs-region'', region),
                                        (''awslogs-stream-prefix'', containerName)]\<rparr>\<rparr>))"

subsection \<open>Images of the experimental container definition (containerDefinition.ts)\<close>

text \<open>
  A \<^verbatim>\<open>ContainerBuild\<close> has the optional fields \<^verbatim>\<open>context\<close>, \<^verbatim>\<open>dockerfile\<close>, \<^verbatim>\<open>args\<close> and
  \<^verbatim>\<open>cacheFrom\<close>; \<^verbatim>\<open>args\<close> is an object, kept here as its entries in the order of
  \<^verbatim>\<open>Object.keys\<close>. The \<^verbatim>\<open>build\<close> of a container is a path or a \<^verbatim>\<open>ContainerBuild\<close>.
\<close>

datatype CacheFrom = CacheFromFlag bool | CacheFromStages "string list option"

record ContainerBuild =
  buildContext :: "string option"
  buildDockerfile :: "string option"
  buildArgs :: "(string \<times> string) list option"
  buildCacheFrom :: "CacheFrom option"

datatype Build = BuildPath string | BuildSpec ContainerBuild

text \<open>
  The experimental \<^verbatim>\<open>ContainerDefinition\<close>, with the fields \<^verbatim>\<open>image\<close>, \<^verbatim>\<open>build\<close>,
  \<^verbatim>\<open>function\<close> and \<^verbatim>\<open>environment\<close> that \<^verbatim>\<open>computeImage\<close> reads. The environment is a
  \<^verbatim>\<open>Record<string, pulumi.Input<string>>\<close>, kept as its entries in key order.
\<close>

type_synonym ContainerEnvironment = "(string \<times> string Input) list"

record 'f ContainerDefinition =
  cdImage :: "string Input option"
  cdBuild :: "Build option"
  cdFunction :: "'f option"
  cdEnvironment :: "ContainerEnvironment option"

record ImageOptions =
  optImage :: "string Input"
  optEnvironment :: ContainerEnvironment

text \<open>
  What the module does to the outside, in order: resources it declares, the docker build
  and push, the serialisation of a function, and debug logging.
\<close>

datatype Call =
    NewRepository string
  | NewLifecyclePolicy string
  | BuildAndPushImage string Build string
  | SerializeFunction
  | LogDebug string

record Repository =
  repositoryName :: string
  repositoryUrl :: string
  registryId :: string

text \<open>
  The module-level maps \<^verbatim>\<open>buildImageCache\<close> and \<^verbatim>\<open>repositories\<close>, and the calls made so
  far. A cache entry is the \<^verbatim>\<open>Output<string>\<close> returned by the build, represented by the
  unique image name it carries.
\<close>

record BuildState =
  buildImageCache :: "string \<rightharpoonup> string"
  repositories :: "string \<rightharpoonup> Repository"
  calls :: "Call list"

text \<open>
  The collaborators: the SHA-1 digest in hexadecimal; the url and registry id the engine
  reports for a new repository of a given name; \<^verbatim>\<open>docker.buildAndPushImage\<close>, whose
  unique image name may depend on the image name, the build, the repository url and on
  how many builds ran before; and \<^verbatim>\<open>pulumi.runtime.serializeFunctionAsync\<close>.
\<close>

record 'f Collaborators =
  sha1 :: "string \<Rightarrow> string"
  ecr :: "string \<Rightarrow> string \<times> string"
  buildAndPushImage :: "nat \<Rightarrow> string \<Rightarrow> Build \<Rightarrow> string \<Rightarrow> string"
  serializeFunctionAsync :: "'f \<Rightarrow> string"

fun isBuildCall :: "Call \<Rightarrow> bool" where
  "isBuildCall (BuildAndPushImage n b u) = True"
| "isBuildCall c = False"

definition buildCount :: "BuildState \<Rightarrow> nat" where
  "buildCount st = length (filter isBuildCall (calls st))"

text \<open>\<^verbatim>\<open>String.prototype.toLowerCase\<close>, on ASCII letters.\<close>

definition toLowerCase :: "string \<Rightarrow> string" where
  "toLowerCase s =
     map (\<lambda>c. if (65::nat) \<le> of_char c \<and> of_char c \<le> (90::nat)
               then char_of (of_char c + (32::nat)) else c) s"

definition createImageOptions :: "string Input \<Rightarrow> ContainerEnvironment \<Rightarrow> ImageOptions" where
  "createImageOptions im env = \<lparr>optImage = im, optEnvironment = env\<rparr>"

text \<open>
  \<^verbatim>\<open>getBuildImageName\<close>: the build signature is the path itself, or the context (\<^verbatim>\<open>"."\<close>
  when absent or empty) followed by \<^verbatim>\<open>;dockerfile=...\<close> for a non-empty dockerfile and by
  \<^verbatim>\<open>;arg[k]=v\<close> for each build argument; the image name is the hash of the signature,
  \<^verbatim>\<open>-container-\<close> and the \<^verbatim>\<open>name\<close> argument.
\<close>

fun appendArgs :: "string \<Rightarrow> (string \<times> string) list \<Rightarrow> string" where
  "appendArgs buildSig [] = buildSig"
| "appendArgs buildSig ((arg, v) # rest) =
     appendArgs (buildSig @ '';arg['' @ arg @ '']='' @ v) rest"

definition buildSignature :: "Build \<Rightarrow> string" where
  "buildSignature b =
     (case b of
        BuildPath s \<Rightarrow> s
      | BuildSpec cb \<Rightarrow>
          (let buildSig = (case buildContext cb of
                             None \<Rightarrow> ''.''
                           | Some c \<Rightarrow> if c \<noteq> [] then c else ''.'');
               buildSig = (case buildDockerfile cb of
                             None \<Rightarrow> buildSig
                           | Some d \<Rightarrow> if d \<noteq> [] then buildSig @ '';dockerfile='' @ d
                                       else buildSig);
               buildSig = (case buildArgs cb of
                             None \<Rightarrow> buildSig
                           | Some as \<Rightarrow> appendArgs buildSig as)
           in buildSig))"

definition getBuildImageName :: "(string \<Rightarrow> string) \<Rightarrow> string \<Rightarrow> Build \<Rightarrow> string" where
  "getBuildImageName sha name b = sha1hash sha (buildSignature b) @ ''-container-'' @ name"

text \<open>
  \<^verbatim>\<open>getOrCreateRepository\<close>: a repository recorded under the image name is returned;
  otherwise a repository and its lifecycle policy are declared under the lower-cased
  image name and the repository is recorded.
\<close>

definition getOrCreateRepository ::
  "'f Collaborators \<Rightarrow> string \<Rightarrow> BuildState \<Rightarrow> Repository \<times> BuildState" where
  "getOrCreateRepository ext imageName st =
     (case repositories st imageName of
        Some repository \<Rightarrow> (repository, st)
      | None \<Rightarrow>
          (let repository = \<lparr>repositoryName = toLowerCase imageName,
                             repositoryUrl = fst (ecr ext (toLowerCase imageName)),
                             registryId = snd (ecr ext (toLowerCase imageName))\<rparr>
           in (repository,
               st\<lparr>repositories := (repositories st)(imageName \<mapsto> repository),
                  calls := calls st @ [NewRepository (toLowerCase imageName),
                                       NewLifecyclePolicy (toLowerCase imageName)]\<rparr>)))"

text \<open>
  \<^verbatim>\<open>computeImageFromBuildWorker\<close>: a cached name is reused; otherwise the image is built
  and pushed and the returned name is stored under the image name. (The callback that
  fetches the registry credentials runs inside the build.)
\<close>

definition computeImageFromBuildWorker ::
  "'f Collaborators \<Rightarrow> 'p \<Rightarrow> ContainerEnvironment \<Rightarrow> Build \<Rightarrow> string \<Rightarrow> string \<Rightarrow> string
     \<Rightarrow> BuildState \<Rightarrow> ImageOptions \<times> BuildState" where
  "computeImageFromBuildWorker ext parent preEnv b imageName repoUrl regId st =
     (case buildImageCache st imageName of
        Some uniqueImageName \<Rightarrow>
          (createImageOptions (Deferred uniqueImageName) preEnv,
           st\<lparr>calls := calls st @ [LogDebug ''already built'']\<rparr>)
      | None \<Rightarrow>
          (let uniqueImageName = buildAndPushImage ext (buildCount st) imageName b repoUrl
           in (createImageOptions (Deferred uniqueImageName) preEnv,
               st\<lparr>buildImageCache := (buildImageCache st)(imageName \<mapsto> uniqueImageName),
                  calls := calls st @ [BuildAndPushImage imageName b repoUrl,
                                       LogDebug ''build complete'']\<rparr>)))"

definition computeImageFromBuild ::
  "'f Collaborators \<Rightarrow> 'p \<Rightarrow> string \<Rightarrow> ContainerEnvironment \<Rightarrow> Build
     \<Rightarrow> BuildState \<Rightarrow> ImageOptions \<times> BuildState" where
  "computeImageFromBuild ext parent name preEnv b st =
     (let imageName = getBuildImageName (sha1 ext) name b;
          (repository, st1) = getOrCreateRepository ext imageName st;
          st2 = st1\<lparr>calls := calls st1 @ [LogDebug ''Building container image'']\<rparr>
      in computeImageFromBuildWorker ext parent preEnv b imageName
           (repositoryUrl repository) (registryId repository) st2)"

text \<open>Assignment \<^verbatim>\<open>obj[k] = v\<close> on an object kept as its entries.\<close>

fun setProperty :: "('k \<times> 'v) list \<Rightarrow> 'k \<Rightarrow> 'v \<Rightarrow> ('k \<times> 'v) list" where
  "setProperty [] k v = [(k, v)]"
| "setProperty ((k', v') # rest) k v =
     (if k' = k then (k, v) # rest else (k', v') # setProperty rest k v)"

definition computeImageFromFunction ::
  "'f Collaborators \<Rightarrow> 'f \<Rightarrow> ContainerEnvironment \<Rightarrow> BuildState \<Rightarrow> ImageOptions \<times> BuildState" where
  "computeImageFromFunction ext func preEnv st =
     (let preEnv = setProperty preEnv ''PULUMI_SRC'' (Deferred (serializeFunctionAsync ext func))
      in (createImageOptions (Plain ''lukehoban/nodejsrunner'') preEnv,
          st\<lparr>calls := calls st @ [SerializeFunction]\<rparr>))"

text \<open>
  \<^verbatim>\<open>computeImage\<close> tests \<^verbatim>\<open>container.build\<close>, \<^verbatim>\<open>container.image\<close> and
  \<^verbatim>\<open>container.function\<close> for truthiness, in this order: an absent field and an empty
  string are falsy; a \<^verbatim>\<open>ContainerBuild\<close>, a promise, an output and a function are truthy.
\<close>

fun buildTruthy :: "Build \<Rightarrow> bool" where
  "buildTruthy (BuildPath s) = (s \<noteq> [])"
| "buildTruthy (BuildSpec cb) = True"

definition computeImage ::
  "'f Collaborators \<Rightarrow> 'p \<Rightarrow> string \<Rightarrow> 'f ContainerDefinition \<Rightarrow> BuildState
     \<Rightarrow> (error + ImageOptions) \<times> BuildState" where
  "computeImage ext parent name container st =
     (let preEnv = (case cdEnvironment container of None \<Rightarrow> [] | Some e \<Rightarrow> e)
      in if (case cdBuild container of None \<Rightarrow> False | Some b \<Rightarrow> buildTruthy b)
         then (case computeImageFromBuild ext parent name preEnv (the (cdBuild container)) st of
                 (r, st') \<Rightarrow> (Inr r, st'))
         else if (case cdImage container of None \<Rightarrow> False | Some i \<Rightarrow> truthy i)
         then (Inr (createImageOptions (the (cdImage container)) preEnv), st)
         else if cdFunction container \<noteq> None
         then (case computeImageFromFunction ext (the (cdFunction container)) preEnv st of
                 (r, st') \<Rightarrow> (Inr r, st'))
         else (Inl InvalidContainerDefinition, st))"

text \<open>
  A run of the module from its initial state: both maps empty, nothing called yet; and
  the processing of a sequence of build requests \<open>(parent, name, preEnv, build)\<close> one
  after the other.
\<close>

definition initialBuildState :: BuildState where
  "initialBuildState = \<lparr>buildImageCache = Map.empty, repositories = Map.empty, calls = []\<rparr>"

fun computeImagesFromBuilds ::
  "'f Collaborators \<Rightarrow> ('p \<times> string \<times> ContainerEnvironment \<times> Build) list \<Rightarrow> BuildState
     \<Rightarrow> BuildState" where
  "computeImagesFromBuilds ext [] st = st"
| "computeImagesFromBuilds ext ((parent, name, preEnv, b) # rest) st =
     computeImagesFromBuilds ext rest (snd (computeImageFromBuild ext parent name preEnv b st))"

text \<open>
  Stand-ins for the collaborators, used to evaluate the functions on concrete inputs:
  the digest of a string is the string itself, a repository named \<open>n\<close> has the url
  \<open>registry/n\<close>, and the \<open>k\<close>-th build yields the url followed by \<open>k\<close> marks.
\<close>

definition sampleCollaborators :: "unit Collaborators" where
  "sampleCollaborators =
     \<lparr>sha1 = (\<lambda>s. s),
      ecr = (\<lambda>n. (''registry/'' @ n, ''registry'')),
      buildAndPushImage = (\<lambda>k imageName b url. url @ '':'' @ replicate k (CHR ''x'')),
      serializeFunctionAsync = (\<lambda>f. ''function'')\<rparr>"

subsection \<open>Running a task (clusterTaskDefinition.ts)\<close>

datatype HostOperatingSystem = Linux | Windows

fun osName :: "HostOperatingSystem \<Rightarrow> string" where
  "osName Linux = ''linux''"
| "osName Windows = ''windows''"

record TaskRunOptions =
  optContainerName :: "string option"
  optOs :: "HostOperatingSystem option"
  optRunEnvironment :: "(string \<times> string) list option"

record PlacementConstraint =
  constraintType :: string
  constraintExpression :: string

text \<open>The request handed to \<^verbatim>\<open>ecs.runTask\<close> and the part of its response that is read.\<close>

record RunTaskRequest =
  reqCluster :: string
  reqTaskDefinition :: string
  reqPlacementConstraints :: "PlacementConstraint list option"
  reqLaunchType :: string
  reqAssignPublicIp :: string
  reqSecurityGroups :: "string list"
  reqSubnets :: "string list"
  reqOverrideName :: string
  reqOverrideEnvironment :: "KeyValuePair list"

record RunTaskResponse =
  failures :: "Failure list option"
  tasks :: "string list option"

definition placementConstraints ::
  "bool \<Rightarrow> HostOperatingSystem option \<Rightarrow> PlacementConstraint list option" where
  "placementConstraints isFargate os =
     (if isFargate then None
      else (let os = (case os of None \<Rightarrow> Linux | Some v \<Rightarrow> v)
            in Some [\<lparr>constraintType = ''memberOf'',
                      constraintExpression = ''attribute:ecs.os-type == '' @ osName os\<rparr>]))"

text \<open>
  The local function \<^verbatim>\<open>addEnvironmentVariables\<close> pushes a pair on \<^verbatim>\<open>env\<close> for every key
  of \<^verbatim>\<open>e\<close> whose value is truthy, that is, not the empty string.
\<close>

fun addEnvironmentVariables_loop ::
  "(string \<times> string) list \<Rightarrow> KeyValuePair list \<Rightarrow> KeyValuePair list" where
  "addEnvironmentVariables_loop [] env = env"
| "addEnvironmentVariables_loop ((key, envVal) # rest) env =
     addEnvironmentVariables_loop rest
       (if envVal \<noteq> [] then env @ [\<lparr>kvName = key, kvValue = envVal\<rparr>] else env)"

definition addEnvironmentVariables ::
  "(string \<times> string) list option \<Rightarrow> KeyValuePair list \<Rightarrow> KeyValuePair list" where
  "addEnvironmentVariables e env =
     (case e of None \<Rightarrow> env | Some kvs \<Rightarrow> addEnvironmentVariables_loop kvs env)"

text \<open>
  \<^verbatim>\<open>runTask\<close>, the function returned by \<^verbatim>\<open>createRunFunction\<close>; the values it closes over
  are its first arguments, \<open>ecsRunTask\<close> is the SDK request (which may be rejected), and
  \<open>containerToEnvironment\<close> lists the containers in key order. The container name is
  \<^verbatim>\<open>options.containerName || Object.keys(innerContainers)[0]\<close>, \<open>None\<close> standing for
  \<^verbatim>\<open>undefined\<close>. The function returns nothing (\<^verbatim>\<open>Promise<void>\<close>); the second component
  of the result is what was written with \<^verbatim>\<open>console.log\<close>, one failure list per line.
\<close>

definition runTask ::
  "bool \<Rightarrow> bool \<Rightarrow> string \<Rightarrow> string \<Rightarrow> string \<Rightarrow> string list
     \<Rightarrow> (string \<times> (string \<times> string) list option) list
     \<Rightarrow> (RunTaskRequest \<Rightarrow> error + RunTaskResponse)
     \<Rightarrow> TaskRunOptions \<Rightarrow> (error + unit) \<times> Failure list list" where
  "runTask isFargate usePrivateSubnets clusterArn taskDefArn securityGroupId subnetIds
           containerToEnvironment ecsRunTask options =
     (let innerContainers = containerToEnvironment;
          firstKey = (case map fst innerContainers of [] \<Rightarrow> None | k # ks \<Rightarrow> Some k);
          containerName = (case optContainerName options of
                             None \<Rightarrow> firstKey
                           | Some n \<Rightarrow> if n \<noteq> [] then Some n else firstKey)
      in case containerName of
           None \<Rightarrow> (Inl NoContainerName, [])
         | Some cn \<Rightarrow>
             if cn = [] then (Inl NoContainerName, [])
             else
               (let environment1 = (case map_of innerContainers cn of
                                      None \<Rightarrow> None
                                    | Some e \<Rightarrow> e);
                    env = addEnvironmentVariables environment1 [];
                    env = addEnvironmentVariables (optRunEnvironment options) env;
                    assignPublicIp = (isFargate \<and> \<not> usePrivateSubnets)
                in case ecsRunTask
                          \<lparr>reqCluster = clusterArn,
                           reqTaskDefinition = taskDefArn,
                           reqPlacementConstraints = placementConstraints isFargate (optOs options),
                           reqLaunchType = (if isFargate then ''FARGATE'' else ''EC2''),
                           reqAssignPublicIp = (if assignPublicIp then ''ENABLED'' else ''DISABLED''),
                           reqSecurityGroups = [securityGroupId],
                           reqSubnets = subnetIds,
                           reqOverrideName = ''container'',
                           reqOverrideEnvironment = env\<rparr> of
                     Inl e \<Rightarrow> (Inl e, [])
                   | Inr res \<Rightarrow>
                       (case failures res of
                          None \<Rightarrow> (Inr (), [])
                        | Some fs \<Rightarrow>
                            if length fs > 0
                            then (Inl (FailedToStartTask fs), [fs])
                            else (Inr (), []))))"

subsection \<open>The Vpc component (experimental/ec2/vpc.ts)\<close>

text \<open>Decimal digits of a number, as template strings print it.\<close>

function showNat :: "nat \<Rightarrow> string" where
  "showNat n = (if n < 10 then [''0123456789'' ! n]
                else showNat (n div 10) @ [''0123456789'' ! (n mod 10)])"
  by pat_completeness auto
termination
  by (relation "measure id") auto

declare showNat.simps [simp del]

text \<open>
  Reading \<^verbatim>\<open>xs[i]\<close> from an array yields \<^verbatim>\<open>undefined\<close> (\<open>None\<close>) out of range.
\<close>

definition arrayGet :: "'a list \<Rightarrow> nat \<Rightarrow> 'a option" where
  "arrayGet xs i = (if i < length xs then Some (xs ! i) else None)"

text \<open>
  Resources registered with the engine, in order: a component resource (the \<^verbatim>\<open>super\<close>
  call of a \<^verbatim>\<open>pulumi.ComponentResource\<close>) or a cloud resource of the provider, each with
  its type and name.
\<close>

datatype Resource =
    ComponentResource string string
  | CustomResource string string

datatype RouteTarget = GatewayId string | NatGatewayId string

record Route =
  routeName :: string
  destinationCidrBlock :: string
  routeTableOf :: string
  routeTarget :: RouteTarget

record Subnet =
  subnetName :: string
  routes :: "Route list"

record NatGateway =
  natName :: string
  natSubnet :: string
  natAllocation :: string

record Vpc =
  vpcId :: "string Input option"
  publicSubnetIds :: "string Input list"
  privateSubnetIds :: "string Input list"
  isolatedSubnetIds :: "string Input list"
  securityGroupIds :: "string Input list"
  publicSubnets :: "Subnet list"
  privateSubnets :: "Subnet list"
  isolatedSubnets :: "Subnet list"
  internetGateway :: "string option"
  natGateways :: "NatGateway list"

type_synonym VpcState = "Vpc \<times> Resource list"

text \<open>The object as the field initialisers leave it, before the constructor body runs.\<close>

definition freshVpc :: Vpc where
  "freshVpc = \<lparr>vpcId = None, publicSubnetIds = [], privateSubnetIds = [],
               isolatedSubnetIds = [], securityGroupIds = [], publicSubnets = [],
               privateSubnets = [], isolatedSubnets = [], internetGateway = None,
               natGateways = []\<rparr>"

datatype VpcSubnetType = Public | Private | Isolated

record VpcSubnetArgs =
  subnetType :: VpcSubnetType
  subnetArgsName :: "string option"
  cidrMask :: "nat option"

record VpcArgs =
  subnets :: "VpcSubnetArgs list option"
  numberOfAvailabilityZones :: "nat option"
  numberOfNatGateways :: "nat option"
  cidrBlock :: "string option"

record ExistingVpcArgs =
  existingVpcId :: "string Input"
  existingPublicSubnetIds :: "string Input list option"
  existingPrivateSubnetIds :: "string Input list option"
  existingIsolatedSubnetIds :: "string Input list option"
  existingSecurityGroupIds :: "string Input list option"

datatype VpcConstructorArgs = NewArgs VpcArgs | ExistingArgs ExistingVpcArgs

text \<open>
  \<^verbatim>\<open>isExistingVpcArgs(obj)\<close> is \<^verbatim>\<open>!!obj.vpcId\<close>. Arguments that fail the test are read as
  \<^verbatim>\<open>VpcArgs\<close>; an \<^verbatim>\<open>ExistingVpcArgs\<close> with an empty \<^verbatim>\<open>vpcId\<close> has none of their fields.
\<close>

fun isExistingVpcArgs :: "VpcConstructorArgs \<Rightarrow> bool" where
  "isExistingVpcArgs (NewArgs a) = False"
| "isExistingVpcArgs (ExistingArgs a) = truthy (existingVpcId a)"

fun asVpcArgs :: "VpcConstructorArgs \<Rightarrow> VpcArgs" where
  "asVpcArgs (NewArgs a) = a"
| "asVpcArgs (ExistingArgs a) =
     \<lparr>subnets = None, numberOfAvailabilityZones = None, numberOfNatGateways = None,
      cidrBlock = None\<rparr>"

definition createOutputs :: "string Input list option \<Rightarrow> string Input list" where
  "createOutputs inputs = (case inputs of None \<Rightarrow> [] | Some is \<Rightarrow> is)"

text \<open>
  \<^verbatim>\<open>createInternetGateway\<close>: nothing without public subnets; otherwise the gateway is
  declared and every public subnet gets a route to it.
\<close>

fun routePublicSubnets :: "string \<Rightarrow> Subnet list \<Rightarrow> Resource list \<Rightarrow> Subnet list \<times> Resource list" where
  "routePublicSubnets igw [] rs = ([], rs)"
| "routePublicSubnets igw (publicSubnet # rest) rs =
     (let r = \<lparr>routeName = subnetName publicSubnet @ ''-ig'',
                destinationCidrBlock = ''0.0.0.0/0'',
                routeTableOf = subnetName publicSubnet,
                routeTarget = GatewayId igw\<rparr>;
          (rest', rs') = routePublicSubnets igw rest (rs @ [CustomResource ''aws.ec2.Route'' (routeName r)])
      in (publicSubnet\<lparr>routes := routes publicSubnet @ [r]\<rparr> # rest', rs'))"

definition createInternetGateway :: "string \<Rightarrow> VpcState \<Rightarrow> string option \<times> VpcState" where
  "createInternetGateway name st =
     (case st of (this, rs) \<Rightarrow>
        if length (publicSubnets this) = 0 then (None, (this, rs))
        else (let rs1 = rs @ [CustomResource ''aws.ec2.InternetGateway'' name];
                  (pubs, rs2) = routePublicSubnets name (publicSubnets this) rs1
              in (Some name, (this\<lparr>publicSubnets := pubs\<rparr>, rs2))))"

text \<open>
  The first loop of \<^verbatim>\<open>createNatGateways\<close> (\<open>newNatGateway\<close> is the gateway it declares): for \<open>i\<close> below \<open>numberOfNatGateways\<close>, an
  elastic IP and a NAT gateway named \<^verbatim>\<open>nat-i\<close> are declared in the public subnet at index
  \<^verbatim>\<open>i % numberOfAvailabilityZones\<close> and the gateway is pushed on \<^verbatim>\<open>this.natGateways\<close>.
  The remainder by zero is \<^verbatim>\<open>NaN\<close>, no index of the array. When the public subnet is
  \<^verbatim>\<open>undefined\<close>, reading its \<^verbatim>\<open>subnetId\<close> throws, after the elastic IP was declared.
\<close>

definition newNatGateway :: "nat \<Rightarrow> Subnet \<Rightarrow> NatGateway" where
  "newNatGateway i publicSubnet =
     \<lparr>natName = ''nat-'' @ showNat i, natSubnet = subnetName publicSubnet,
      natAllocation = ''nat-'' @ showNat i\<rparr>"

function createGateways :: "nat \<Rightarrow> nat \<Rightarrow> nat \<Rightarrow> VpcState \<Rightarrow> (error + unit) \<times> VpcState" where
  "createGateways az ng i (this, rs) =
     (if i < ng then
        (let publicSubnet = (if az = 0 then None
                             else arrayGet (publicSubnets this) (i mod az));
             natName = ''nat-'' @ showNat i;
             rs1 = rs @ [CustomResource ''aws.ec2.Eip'' natName]
         in case publicSubnet of
              None \<Rightarrow> (Inl TypeError, (this, rs1))
            | Some ps \<Rightarrow>
                createGateways az ng (Suc i)
                  (this\<lparr>natGateways := natGateways this @ [newNatGateway i ps]\<rparr>,
                   rs1 @ [CustomResource ''aws.ec2.NatGateway'' natName]))
      else (Inr (), (this, rs)))"
  by pat_completeness auto
termination
  by (relation "measure (\<lambda>(az, ng, i, st). ng - i)") auto

declare createGateways.simps [simp del]

text \<open>
  The inner loop of the routing (\<open>natRoute\<close> is the route it declares, \<open>addRoute\<close> the
  push on the routes of the subnet): for \<open>j\<close> below \<open>numberOfAvailabilityZones\<close>, the private
  subnet at index \<open>i + j\<close> is routed to \<^verbatim>\<open>natGateways[j]\<close> when \<open>j < numberOfNatGateways\<close>
  and to \<^verbatim>\<open>natGateways[roundRobinIndex++]\<close> otherwise. The gateway is selected first;
  then reading a property of an \<^verbatim>\<open>undefined\<close> subnet or gateway throws. The state
  carries \<^verbatim>\<open>roundRobinIndex\<close> in front.
\<close>

definition natRoute :: "nat \<Rightarrow> Subnet \<Rightarrow> NatGateway \<Rightarrow> Route" where
  "natRoute j privateSubnet natGateway =
     \<lparr>routeName = subnetName privateSubnet @ ''-nat-'' @ showNat j,
      destinationCidrBlock = ''0.0.0.0/0'',
      routeTableOf = subnetName privateSubnet,
      routeTarget = NatGatewayId (natName natGateway)\<rparr>"

definition addRoute :: "Subnet \<Rightarrow> Route \<Rightarrow> Subnet" where
  "addRoute subnet r = subnet\<lparr>routes := routes subnet @ [r]\<rparr>"

function routeBand ::
  "nat \<Rightarrow> nat \<Rightarrow> nat \<Rightarrow> nat \<Rightarrow> nat \<times> VpcState \<Rightarrow> (error + unit) \<times> (nat \<times> VpcState)" where
  "routeBand az ng i j (roundRobinIndex, this, rs) =
     (if j < az then
        (let privateSubnet = arrayGet (privateSubnets this) (i + j);
             natGateway = (if j < ng then arrayGet (natGateways this) j
                           else arrayGet (natGateways this) roundRobinIndex);
             rr1 = (if j < ng then roundRobinIndex else Suc roundRobinIndex)
         in case privateSubnet of
              None \<Rightarrow> (Inl TypeError, (rr1, this, rs))
            | Some ps \<Rightarrow>
                (case natGateway of
                   None \<Rightarrow> (Inl TypeError, (rr1, this, rs))
                 | Some gw \<Rightarrow>
                     (let r = natRoute j ps gw
                      in routeBand az ng i (Suc j)
                           (rr1,
                            this\<lparr>privateSubnets := (privateSubnets this)[i + j := addRoute ps r]\<rparr>,
                            rs @ [CustomResource ''aws.ec2.Route'' (routeName r)]))))
      else (Inr (), (roundRobinIndex, this, rs)))"
  by pat_completeness auto
termination
  by (relation "measure (\<lambda>(az, ng, i, j, st). az - j)") auto

declare routeBand.simps [simp del]

text \<open>
  The outer loop, \<^verbatim>\<open>for (let i = 0, n = this.privateSubnets.length; i < n; i +=
  numberOfAvailabilityZones)\<close>. With a step of zero it would not end, so it is a partial
  function: \<open>None\<close> is a run that does not return.
\<close>

partial_function (option) routeBands ::
  "nat \<Rightarrow> nat \<Rightarrow> nat \<Rightarrow> nat \<Rightarrow> nat \<times> VpcState \<Rightarrow> ((error + unit) \<times> (nat \<times> VpcState)) option" where
  "routeBands az ng n i st =
     (if i < n then
        (case routeBand az ng i 0 st of
           (Inl e, st') \<Rightarrow> Some (Inl e, st')
         | (Inr u, st') \<Rightarrow> routeBands az ng n (i + az) st')
      else Some (Inr (), st))"

declare routeBands.simps [code]

definition createNatGateways :: "nat \<Rightarrow> nat \<Rightarrow> VpcState \<Rightarrow> ((error + unit) \<times> VpcState) option" where
  "createNatGateways az ng st =
     (case st of (this, rs) \<Rightarrow>
        if length (privateSubnets this) = 0 \<or> ng = 0 \<or> length (publicSubnets this) = 0
        then Some (Inr (), (this, rs))
        else (case createGateways az ng 0 (this, rs) of
                (Inl e, st1) \<Rightarrow> Some (Inl e, st1)
              | (Inr u, (this1, rs1)) \<Rightarrow>
                  (case routeBands az ng (length (privateSubnets this1)) 0 (0, this1, rs1) of
                     None \<Rightarrow> None
                   | Some (r, (roundRobinIndex, st2)) \<Rightarrow> Some (r, st2))))"

text \<open>
  \<^verbatim>\<open>VpcTopology\<close> is not among the sources. Its \<^verbatim>\<open>createSubnets\<close>, which declares the
  subnets and pushes them on the Vpc, is the parameter \<open>topology\<close> of the constructor:
  it receives the name, the CIDR block, the number of zones and the subnet arguments,
  and either throws (with a message) or returns, in both cases with the state it leaves.
\<close>

type_synonym Topology =
  "string \<Rightarrow> string \<Rightarrow> nat \<Rightarrow> VpcSubnetArgs list \<Rightarrow> VpcState \<Rightarrow> (string + unit) \<times> VpcState"

text \<open>
  The constructor of \<^verbatim>\<open>Vpc\<close>. The \<^verbatim>\<open>super\<close> call registers the component; for existing
  arguments the ids are recorded; otherwise the defaults are applied, the number of NAT
  gateways is validated, and only then the cloud resources are declared. A throw loses
  the object and keeps the registrations. The result is \<open>None\<close> when the constructor does
  not return.
\<close>

definition newVpc ::
  "Topology \<Rightarrow> string \<Rightarrow> VpcConstructorArgs \<Rightarrow> Resource list
     \<Rightarrow> ((error + Vpc) \<times> Resource list) option" where
  "newVpc topology name args rs =
     (let rs0 = rs @ [ComponentResource ''awsinfra:x:ec2:Vpc'' name];
          this = freshVpc
      in if isExistingVpcArgs args
         then (case args of
                 ExistingArgs a \<Rightarrow>
                   Some (Inr (this\<lparr>vpcId := Some (existingVpcId a),
                                   publicSubnetIds := createOutputs (existingPublicSubnetIds a),
                                   privateSubnetIds := createOutputs (existingPrivateSubnetIds a),
                                   isolatedSubnetIds := createOutputs (existingIsolatedSubnetIds a)\<rparr>),
                         rs0)
               | NewArgs a \<Rightarrow> Some (Inr this, rs0))
         else
           (let a = asVpcArgs args;
                cidrBlock1 = (case cidrBlock a of None \<Rightarrow> ''10.0.0.0/16'' | Some c \<Rightarrow> c);
                az = (case numberOfAvailabilityZones a of None \<Rightarrow> 2 | Some z \<Rightarrow> z);
                ng = (case numberOfNatGateways a of None \<Rightarrow> az | Some g \<Rightarrow> g)
            in if ng > az then Some (Inl (NatGatewaysExceedZones ng az), rs0)
               else
                 (let rs1 = rs0 @ [CustomResource ''aws.ec2.Vpc'' name];
                      this1 = this\<lparr>vpcId := Some (Deferred name)\<rparr>;
                      subnetArgs = (case subnets a of
                                      None \<Rightarrow> [\<lparr>subnetType = Public, subnetArgsName = None,
                                                 cidrMask = None\<rparr>,
                                                \<lparr>subnetType = Private, subnetArgsName = None,
                                                 cidrMask = None\<rparr>]
                                    | Some s \<Rightarrow> s)
                  in case topology name cidrBlock1 az subnetArgs (this1, rs1) of
                       (Inl m, (this2, rs2)) \<Rightarrow> Some (Inl (TopologyError m), rs2)
                     | (Inr u, st2) \<Rightarrow>
                         (case createInternetGateway name st2 of
                            (igw, (this3, rs3)) \<Rightarrow>
                              (case createNatGateways az ng (this3\<lparr>internetGateway := igw\<rparr>, rs3) of
                                 None \<Rightarrow> None
                               | Some (Inl e, (this4, rs4)) \<Rightarrow> Some (Inl e, rs4)
                               | Some (Inr u, (this4, rs4)) \<Rightarrow> Some (Inr this4, rs4))))))"

text \<open>
  The module-level variable \<^verbatim>\<open>defaultVpc\<close> (declared without a value, hence
  \<^verbatim>\<open>undefined\<close> when the module is loaded), the registered resources and the provider
  lookups issued so far.
\<close>

datatype Invoke = GetVpc | GetSubnetIds | GetSecurityGroup

record VpcModule =
  defaultVpc :: "Vpc option"
  resources :: "Resource list"
  invokes :: "Invoke list"

definition initialVpcModule :: VpcModule where
  "initialVpcModule = \<lparr>defaultVpc = None, resources = [], invokes = []\<rparr>"

text \<open>What the promises of the lookups carry: the id of the default VPC, its first two
  subnet ids and the id of its default security group.\<close>

record DefaultVpcLookup =
  lookupVpcId :: string
  lookupSubnet0 :: string
  lookupSubnet1 :: string
  lookupSecurityGroup :: string

text \<open>
  \<^verbatim>\<open>Vpc.getDefault\<close>: \<^verbatim>\<open>if (!defaultVpc) { return defaultVpc; }\<close>, then the lookups, the
  construction of \<^verbatim>\<open>default-vpc\<close> from existing ids and the assignment to \<^verbatim>\<open>defaultVpc\<close>.
  The returned value is \<open>None\<close> for \<^verbatim>\<open>undefined\<close>.
\<close>

definition getDefault ::
  "Topology \<Rightarrow> DefaultVpcLookup \<Rightarrow> VpcModule \<Rightarrow> ((error + Vpc option) \<times> VpcModule) option" where
  "getDefault topology lk m =
     (case defaultVpc m of
        None \<Rightarrow> Some (Inr None, m)
      | Some v \<Rightarrow>
          (let m1 = m\<lparr>invokes := invokes m @ [GetVpc, GetSubnetIds, GetSecurityGroup]\<rparr>
           in case newVpc topology ''default-vpc''
                     (ExistingArgs
                        \<lparr>existingVpcId = Deferred (lookupVpcId lk),
                         existingPublicSubnetIds =
                           Some [Deferred (lookupSubnet0 lk), Deferred (lookupSubnet1 lk)],
                         existingPrivateSubnetIds = None,
                         existingIsolatedSubnetIds = None,
                         existingSecurityGroupIds = Some [Deferred (lookupSecurityGroup lk)]\<rparr>)
                     (resources m1) of
                None \<Rightarrow> None
              | Some (Inl e, rs) \<Rightarrow> Some (Inl e, m1\<lparr>resources := rs\<rparr>)
              | Some (Inr vpc, rs) \<Rightarrow>
                  Some (Inr (Some vpc), m1\<lparr>resources := rs, defaultVpc := Some vpc\<rparr>)))"

text \<open>
  The description of the routing that the code is compared with. A private subnet at
  position \<open>p\<close> of the list sits at band position \<open>p mod az\<close>. The round-robin counter
  starts at 0 and is incremented once for every subnet routed through it, so at position
  \<open>p\<close> it has counted the earlier positions whose band position is not below the
  number of gateways, over all bands. \<open>routedTo\<close> says that a subnet has gained exactly
  the route to the selected gateway, which exists.
\<close>

definition roundRobinCounter :: "nat \<Rightarrow> nat \<Rightarrow> nat \<Rightarrow> nat" where
  "roundRobinCounter az ng p = length (filter (\<lambda>q. ng \<le> q mod az) [0..<p])"

definition selectedGateway :: "nat \<Rightarrow> nat \<Rightarrow> nat \<Rightarrow> nat" where
  "selectedGateway az ng p =
     (if p mod az < ng then p mod az else roundRobinCounter az ng p)"

definition routedTo :: "nat \<Rightarrow> nat \<Rightarrow> NatGateway list \<Rightarrow> nat \<Rightarrow> Subnet \<Rightarrow> Subnet \<Rightarrow> bool" where
  "routedTo az ng gws p before after \<longleftrightarrow>
     selectedGateway az ng p < length gws
     \<and> after = addRoute before (natRoute (p mod az) before (gws ! selectedGateway az ng p))"

text \<open>
  What a run of the routing over the positions from \<open>lo\<close> up to \<open>hi\<close> leaves behind,
  whether it ends normally or by a throw: the gateways and the number of private subnets
  are unchanged; subnets outside the range are untouched; a subnet in the range is either
  untouched or routed as described; a normal end means that the whole range is routed
  and the counter has the value for \<open>hi\<close>; the run ends normally when every selected
  gateway of the range exists, and otherwise throws a \<^verbatim>\<open>TypeError\<close>.
\<close>

definition routingPost ::
  "nat \<Rightarrow> nat \<Rightarrow> nat \<Rightarrow> nat \<Rightarrow> Vpc \<Rightarrow> (error + unit) \<times> nat \<times> VpcState \<Rightarrow> bool" where
  "routingPost az ng lo hi this res \<longleftrightarrow>
     (case res of (r, rr', this', rs') \<Rightarrow>
        natGateways this' = natGateways this
      \<and> length (privateSubnets this') = length (privateSubnets this)
      \<and> (\<forall>p < length (privateSubnets this).
            p < lo \<or> hi \<le> p \<longrightarrow> privateSubnets this' ! p = privateSubnets this ! p)
      \<and> (\<forall>p. lo \<le> p \<and> p < hi \<longrightarrow>
            privateSubnets this' ! p = privateSubnets this ! p
            \<or> routedTo az ng (natGateways this) p
                 (privateSubnets this ! p) (privateSubnets this' ! p))
      \<and> (r = Inr () \<longrightarrow>
            rr' = roundRobinCounter az ng hi
          \<and> (\<forall>p. lo \<le> p \<and> p < hi \<longrightarrow>
                routedTo az ng (natGateways this) p
                  (privateSubnets this ! p) (privateSubnets this' ! p)))
      \<and> ((\<forall>p. lo \<le> p \<and> p < hi \<longrightarrow> selectedGateway az ng p < length (natGateways this))
           \<longrightarrow> r = Inr ())
      \<and> (r = Inr () \<or> r = Inl TypeError))"

subsection \<open>The CIDR partitioner (VpcTopology.createSubnets)\<close>


















section \<open>Properties\<close>

subsection \<open>Port mapping normalisation\<close>

lemma convertMappings_loop_map:
  "convertMappings_loop ms acc = acc @ map initializePortMapping ms"
  by (induction ms arbitrary: acc) (simp_all add: initializePortMapping_def Let_def)

lemma convertMappings_map: "convertMappings ms = map initializePortMapping ms"
  by (simp add: convertMappings_def convertMappings_loop_map)

text \<open>
  Claim C6. Every port mapping whose host port is unspecified is normalised to a mapping
  whose host port equals its container port, by \<^verbatim>\<open>convertMappings\<close> (position by position,
  nothing else changed) as well as by \<^verbatim>\<open>initializePortMapping\<close>; a mapping whose host port
  is specified is kept as it is; and \<^verbatim>\<open>{containerPort: 80}\<close> becomes
  \<^verbatim>\<open>{containerPort: 80, hostPort: 80}\<close>.
\<close>

theorem hostPort_defaults_to_containerPort:
  "length (convertMappings ms) = length ms
   \<and> (\<forall>i < length ms.
        (hostPort (ms ! i) = None \<longrightarrow>
           convertMappings ms ! i = (ms ! i)\<lparr>hostPort := Some (containerPort (ms ! i))\<rparr>)
      \<and> (hostPort (ms ! i) \<noteq> None \<longrightarrow> convertMappings ms ! i = ms ! i))
   \<and> (hostPort pm = None \<longrightarrow>
        initializePortMapping pm = pm\<lparr>hostPort := Some (containerPort pm)\<rparr>)
   \<and> (hostPort pm \<noteq> None \<longrightarrow> initializePortMapping pm = pm)
   \<and> convertMappings [\<lparr>containerPort = 80, hostPort = None, protocol = None\<rparr>]
       = [\<lparr>containerPort = 80, hostPort = Some 80, protocol = None\<rparr>]"
  by (simp add: convertMappings_map initializePortMapping_def)

theorem hostPort_defaults_to_containerPort_witness:
  "convertMappings
     [\<lparr>containerPort = 80, hostPort = None, protocol = None\<rparr>,
      \<lparr>containerPort = 8080, hostPort = Some 443, protocol = Some ''tcp''\<rparr>]
   = [\<lparr>containerPort = 80, hostPort = Some 80, protocol = None\<rparr>,
      \<lparr>containerPort = 8080, hostPort = Some 443, protocol = Some ''tcp''\<rparr>]
   \<and> initializePortMapping \<lparr>containerPort = 80, hostPort = None, protocol = None\<rparr>
       = \<lparr>containerPort = 80, hostPort = Some 80, protocol = None\<rparr>
   \<and> initializePortMapping \<lparr>containerPort = 80, hostPort = Some 81, protocol = None\<rparr>
       = \<lparr>containerPort = 80, hostPort = Some 81, protocol = None\<rparr>"
proof -
  let ?a = "\<lparr>containerPort = 80, hostPort = None, protocol = None\<rparr>"
  let ?b = "\<lparr>containerPort = 8080, hostPort = Some 443, protocol = Some ''tcp''\<rparr>"
  let ?c = "\<lparr>containerPort = 80, hostPort = Some 81, protocol = None\<rparr>"
  have len: "length (convertMappings [?a, ?b]) = 2"
    using hostPort_defaults_to_containerPort [of "[?a, ?b]" ?a] by simp
  have e0: "convertMappings [?a, ?b] ! 0 = ?a\<lparr>hostPort := Some 80\<rparr>"
    using hostPort_defaults_to_containerPort [of "[?a, ?b]" ?a] by force
  have e1: "convertMappings [?a, ?b] ! 1 = ?b"
    using hostPort_defaults_to_containerPort [of "[?a, ?b]" ?a] by force
  have l: "convertMappings [?a, ?b] = [?a\<lparr>hostPort := Some 80\<rparr>, ?b]"
    using len e0 e1 by (auto simp: list_eq_iff_nth_eq less_Suc_eq numeral_2_eq_2)
  have i1: "initializePortMapping ?a = ?a\<lparr>hostPort := Some 80\<rparr>"
    using hostPort_defaults_to_containerPort [of "[]" ?a] by simp
  have i2: "initializePortMapping ?c = ?c"
    using hostPort_defaults_to_containerPort [of "[]" ?c] by simp
  show ?thesis using l i1 i2 by simp
qed


subsection \<open>Environment of a container with an image provider\<close>

text \<open>
  Claim C7. When the image of a container is a \<^verbatim>\<open>ContainerImageProvider\<close>, the
  environment of the computed container definition is the user's list followed by the
  provider's list, an undefined list counting as empty. The result is a plain
  concatenation: entries with equal names are all kept, in that order. (The only way for
  \<^verbatim>\<open>computeContainerDefinition\<close> not to produce a definition is that the container has no log
  configuration and the region lookup throws.)
\<close>

theorem environment_user_then_provider:
  assumes "image container = ImageProvider im env"
  shows "map_sum id defEnvironment
           (computeContainerDefinition parent name containerName container logGroupId requireRegion)
         = (if logConfiguration container = None \<and> isl requireRegion
            then Inl (projl requireRegion)
            else Inr (Some ((case environment container of None \<Rightarrow> [] | Some e \<Rightarrow> e)
                            @ (case env parent of None \<Rightarrow> [] | Some e \<Rightarrow> e))))"
  using assms
  by (auto simp: computeContainerDefinition_def combineArrays_def Let_def
           split: option.splits sum.splits)

theorem environment_user_then_provider_witness:
  "map_sum id defEnvironment
     (computeContainerDefinition () ''svc'' ''web''
        \<lparr>environment = Some [\<lparr>kvName = ''PORT'', kvValue = ''80''\<rparr>,
                             \<lparr>kvName = ''MODE'', kvValue = ''a''\<rparr>],
         image = ImageProvider (\<lambda>_. ''repo/web'')
                   (\<lambda>_. Some [\<lparr>kvName = ''PORT'', kvValue = ''8080''\<rparr>]),
         portMappings = None, logConfiguration = None\<rparr>
        ''log-group'' (Inr ''us-west-2''))
   = Inr (Some [\<lparr>kvName = ''PORT'', kvValue = ''80''\<rparr>,
                \<lparr>kvName = ''MODE'', kvValue = ''a''\<rparr>,
                \<lparr>kvName = ''PORT'', kvValue = ''8080''\<rparr>])"
  using environment_user_then_provider
    [of "\<lparr>environment = Some [\<lparr>kvName = ''PORT'', kvValue = ''80''\<rparr>,
                               \<lparr>kvName = ''MODE'', kvValue = ''a''\<rparr>],
           image = ImageProvider (\<lambda>_. ''repo/web'')
                     (\<lambda>_. Some [\<lparr>kvName = ''PORT'', kvValue = ''8080''\<rparr>]),
           portMappings = None, logConfiguration = None\<rparr>"
        "\<lambda>_. ''repo/web''" "\<lambda>_. Some [\<lparr>kvName = ''PORT'', kvValue = ''8080''\<rparr>]"
        "()" "''svc''" "''web''" "''log-group''" "Inr ''us-west-2''"]
  by simp

subsection \<open>Validation of the image source\<close>

text \<open>
  Claim C8. A container definition in which none of \<^verbatim>\<open>build\<close>, \<^verbatim>\<open>image\<close> and
  \<^verbatim>\<open>function\<close> is provided, where an empty string for \<^verbatim>\<open>build\<close> or \<^verbatim>\<open>image\<close> counts as
  not provided, makes \<^verbatim>\<open>computeImage\<close> throw its validation error with the state of the
  module untouched: nothing has been declared, built or serialised on the way. When at
  least one of the three is provided with a truthy value, \<^verbatim>\<open>computeImage\<close> returns image
  options and the error is not thrown.
\<close>

theorem computeImage_validation:
  "(\<not> (case cdBuild c of None \<Rightarrow> False | Some b \<Rightarrow> buildTruthy b)
      \<and> \<not> (case cdImage c of None \<Rightarrow> False | Some i \<Rightarrow> truthy i)
      \<and> cdFunction c = None
    \<longrightarrow> computeImage ext parent name c st = (Inl InvalidContainerDefinition, st))
   \<and> ((case cdBuild c of None \<Rightarrow> False | Some b \<Rightarrow> buildTruthy b)
      \<or> (case cdImage c of None \<Rightarrow> False | Some i \<Rightarrow> truthy i)
      \<or> cdFunction c \<noteq> None
    \<longrightarrow> (\<exists>r st'. computeImage ext parent name c st = (Inr r, st')))"
  by (auto simp: computeImage_def Let_def split: prod.splits option.splits)

theorem computeImage_validation_witness:
  "computeImage sampleCollaborators () ''app''
     \<lparr>cdImage = None, cdBuild = None, cdFunction = None, cdEnvironment = None\<rparr>
     initialBuildState
   = (Inl InvalidContainerDefinition, initialBuildState)
   \<and> (\<exists>r st'. computeImage sampleCollaborators () ''app''
                 \<lparr>cdImage = Some (Plain ''nginx''), cdBuild = None, cdFunction = None,
                  cdEnvironment = None\<rparr>
                 initialBuildState = (Inr r, st'))"
  using computeImage_validation
          [of "\<lparr>cdImage = None, cdBuild = None, cdFunction = None, cdEnvironment = None\<rparr>"
              sampleCollaborators "()" "''app''" initialBuildState]
        computeImage_validation
          [of "\<lparr>cdImage = Some (Plain ''nginx''), cdBuild = None, cdFunction = None,
                cdEnvironment = None\<rparr>"
              sampleCollaborators "()" "''app''" initialBuildState]
  by simp

text \<open>
  The claim as it was stated fails for a field that is set to the empty string:
  \<^verbatim>\<open>{image: ""}\<close> has its \<^verbatim>\<open>image\<close> set, and the validation error is thrown.
\<close>

theorem computeImage_empty_image_counterexample:
  "cdImage \<lparr>cdImage = Some (Plain ''''), cdBuild = None, cdFunction = None,
            cdEnvironment = None\<rparr> \<noteq> None
   \<and> computeImage sampleCollaborators () ''app''
        \<lparr>cdImage = Some (Plain ''''), cdBuild = None, cdFunction = None, cdEnvironment = None\<rparr>
        initialBuildState
      = (Inl InvalidContainerDefinition, initialBuildState)"
  by (simp add: computeImage_def)

subsection \<open>The build cache\<close>

lemma buildCount_calls:
  "buildCount (st\<lparr>calls := calls st @ cs\<rparr>) = buildCount st + length (filter isBuildCall cs)"
  by (simp add: buildCount_def)

lemma getOrCreateRepository_keeps:
  "buildImageCache (snd (getOrCreateRepository ext imageName st)) = buildImageCache st"
  "buildCount (snd (getOrCreateRepository ext imageName st)) = buildCount st"
  by (simp_all add: getOrCreateRepository_def Let_def buildCount_def split: option.splits)

lemma worker_cached:
  assumes "buildImageCache st imageName = Some u"
  shows "optImage (fst (computeImageFromBuildWorker ext parent preEnv b imageName url reg st))
           = Deferred u"
    and "buildImageCache (snd (computeImageFromBuildWorker ext parent preEnv b imageName url reg st))
           = buildImageCache st"
    and "buildCount (snd (computeImageFromBuildWorker ext parent preEnv b imageName url reg st))
           = buildCount st"
  using assms
  by (simp_all add: computeImageFromBuildWorker_def createImageOptions_def buildCount_def)

lemma worker_miss:
  assumes "buildImageCache st imageName = None"
  shows "optImage (fst (computeImageFromBuildWorker ext parent preEnv b imageName url reg st))
           = Deferred (buildAndPushImage ext (buildCount st) imageName b url)"
    and "buildImageCache (snd (computeImageFromBuildWorker ext parent preEnv b imageName url reg st))
           = (buildImageCache st)
               (imageName \<mapsto> buildAndPushImage ext (buildCount st) imageName b url)"
    and "buildCount (snd (computeImageFromBuildWorker ext parent preEnv b imageName url reg st))
           = Suc (buildCount st)"
  using assms
  by (simp_all add: computeImageFromBuildWorker_def createImageOptions_def buildCount_def Let_def)

lemma fromBuild_cached:
  assumes "buildImageCache st (getBuildImageName (sha1 ext) name b) = Some u"
  shows "optImage (fst (computeImageFromBuild ext parent name preEnv b st)) = Deferred u"
    and "buildImageCache (snd (computeImageFromBuild ext parent name preEnv b st))
           = buildImageCache st"
    and "buildCount (snd (computeImageFromBuild ext parent name preEnv b st)) = buildCount st"
proof -
  let ?k = "getBuildImageName (sha1 ext) name b"
  obtain repository st1 where g: "getOrCreateRepository ext ?k st = (repository, st1)"
    by (cases "getOrCreateRepository ext ?k st")
  let ?st2 = "st1\<lparr>calls := calls st1 @ [LogDebug ''Building container image'']\<rparr>"
  have c1: "buildImageCache st1 = buildImageCache st" and n1: "buildCount st1 = buildCount st"
    using getOrCreateRepository_keeps [of ext ?k st] g by simp_all
  have c2: "buildImageCache ?st2 ?k = Some u" using c1 assms by simp
  have n2: "buildCount ?st2 = buildCount st" using n1 by (simp add: buildCount_def)
  have e: "computeImageFromBuild ext parent name preEnv b st
           = computeImageFromBuildWorker ext parent preEnv b ?k
               (repositoryUrl repository) (registryId repository) ?st2"
    by (simp add: computeImageFromBuild_def Let_def g)
  show "optImage (fst (computeImageFromBuild ext parent name preEnv b st)) = Deferred u"
    using worker_cached(1) [OF c2] e by simp
  show "buildImageCache (snd (computeImageFromBuild ext parent name preEnv b st))
          = buildImageCache st"
    using worker_cached(2) [OF c2] e c1 by simp
  show "buildCount (snd (computeImageFromBuild ext parent name preEnv b st)) = buildCount st"
    using worker_cached(3) [OF c2] e n2 by simp
qed

lemma fromBuild_miss:
  assumes "buildImageCache st (getBuildImageName (sha1 ext) name b) = None"
  shows "\<exists>u. optImage (fst (computeImageFromBuild ext parent name preEnv b st)) = Deferred u
           \<and> buildImageCache (snd (computeImageFromBuild ext parent name preEnv b st))
               = (buildImageCache st)(getBuildImageName (sha1 ext) name b \<mapsto> u)"
    and "buildCount (snd (computeImageFromBuild ext parent name preEnv b st))
           = Suc (buildCount st)"
proof -
  let ?k = "getBuildImageName (sha1 ext) name b"
  obtain repository st1 where g: "getOrCreateRepository ext ?k st = (repository, st1)"
    by (cases "getOrCreateRepository ext ?k st")
  let ?st2 = "st1\<lparr>calls := calls st1 @ [LogDebug ''Building container image'']\<rparr>"
  have c1: "buildImageCache st1 = buildImageCache st" and n1: "buildCount st1 = buildCount st"
    using getOrCreateRepository_keeps [of ext ?k st] g by simp_all
  have c2: "buildImageCache ?st2 ?k = None" using c1 assms by simp
  have c2': "buildImageCache ?st2 = buildImageCache st" using c1 by simp
  have n2: "buildCount ?st2 = buildCount st" using n1 by (simp add: buildCount_def)
  have e: "computeImageFromBuild ext parent name preEnv b st
           = computeImageFromBuildWorker ext parent preEnv b ?k
               (repositoryUrl repository) (registryId repository) ?st2"
    by (simp add: computeImageFromBuild_def Let_def g)
  show "\<exists>u. optImage (fst (computeImageFromBuild ext parent name preEnv b st)) = Deferred u
           \<and> buildImageCache (snd (computeImageFromBuild ext parent name preEnv b st))
               = (buildImageCache st)(?k \<mapsto> u)"
    using worker_miss(1,2)
            [OF c2, of ext parent preEnv b "repositoryUrl repository" "registryId repository"]
          e c2'
    by simp
  show "buildCount (snd (computeImageFromBuild ext parent name preEnv b st))
          = Suc (buildCount st)"
    using worker_miss(3) [OF c2] e n2 by simp
qed

lemma fromBuild_records:
  "\<exists>u. optImage (fst (computeImageFromBuild ext parent name preEnv b st)) = Deferred u
      \<and> buildImageCache (snd (computeImageFromBuild ext parent name preEnv b st))
          (getBuildImageName (sha1 ext) name b) = Some u"
proof (cases "buildImageCache st (getBuildImageName (sha1 ext) name b)")
  case None
  from fromBuild_miss(1) [OF None, of parent preEnv] show ?thesis by auto
next
  case (Some u)
  from fromBuild_cached(1,2) [OF Some, of parent preEnv] Some show ?thesis by auto
qed

lemma fromBuild_keeps_entry:
  assumes "buildImageCache st k = Some u"
  shows "buildImageCache (snd (computeImageFromBuild ext parent name preEnv b st)) k = Some u"
proof (cases "buildImageCache st (getBuildImageName (sha1 ext) name b)")
  case None
  then have "getBuildImageName (sha1 ext) name b \<noteq> k" using assms by auto
  with fromBuild_miss(1) [OF None, of parent preEnv] assms show ?thesis by auto
next
  case (Some v)
  from fromBuild_cached(2) [OF Some, of parent preEnv] assms show ?thesis by simp
qed

lemma fromBuilds_keeps_entry:
  "buildImageCache st k = Some u
   \<Longrightarrow> buildImageCache (computeImagesFromBuilds ext reqs st) k = Some u"
proof (induction reqs arbitrary: st)
  case Nil
  then show ?case by simp
next
  case (Cons r reqs)
  obtain parent name preEnv b where r: "r = (parent, name, preEnv, b)"
    by (cases r) auto
  show ?case
    using Cons.IH [OF fromBuild_keeps_entry [OF Cons.prems, of ext parent name preEnv b]] r
    by simp
qed

lemma getBuildImageName_name:
  "getBuildImageName sha name1 b = getBuildImageName sha name2 b \<longleftrightarrow> name1 = name2"
  by (simp add: getBuildImageName_def)

text \<open>
  Claim C5. The cache is keyed by the image name, which is made of the hash of the build
  signature and of the \<^verbatim>\<open>name\<close> the component passes. For two requests with the same
  image name (in particular: the same name and identical context, dockerfile and build
  arguments), with any requests in between: the first request records the image reference
  it returns under the image name, after one build and push unless the name was cached
  already; the later request returns the same reference and invokes no build.
\<close>

theorem build_cache_same_image_name:
  assumes "getBuildImageName (sha1 ext) name2 b2 = getBuildImageName (sha1 ext) name1 b1"
  shows "let first = computeImageFromBuild ext p1 name1 env1 b1 st;
             st2 = computeImagesFromBuilds ext reqs (snd first);
             second = computeImageFromBuild ext p2 name2 env2 b2 st2
         in optImage (fst second) = optImage (fst first)
          \<and> buildCount (snd second) = buildCount st2
          \<and> (\<exists>u. optImage (fst first) = Deferred u
                 \<and> buildImageCache (snd first) (getBuildImageName (sha1 ext) name1 b1) = Some u)
          \<and> buildCount (snd first)
              = buildCount st
                + (if buildImageCache st (getBuildImageName (sha1 ext) name1 b1) = None
                   then 1 else 0)"
proof -
  let ?k = "getBuildImageName (sha1 ext) name1 b1"
  let ?first = "computeImageFromBuild ext p1 name1 env1 b1 st"
  let ?st2 = "computeImagesFromBuilds ext reqs (snd ?first)"
  let ?second = "computeImageFromBuild ext p2 name2 env2 b2 ?st2"
  obtain u where u: "optImage (fst ?first) = Deferred u"
      "buildImageCache (snd ?first) ?k = Some u"
    using fromBuild_records [of ext p1 name1 env1 b1 st] by auto
  have "buildImageCache ?st2 ?k = Some u"
    using fromBuilds_keeps_entry [OF u(2)] .
  then have hit: "buildImageCache ?st2 (getBuildImageName (sha1 ext) name2 b2) = Some u"
    using assms by simp
  have a: "optImage (fst ?second) = optImage (fst ?first)"
    using fromBuild_cached(1) [OF hit, of p2 env2] u(1) by simp
  have b: "buildCount (snd ?second) = buildCount ?st2"
    using fromBuild_cached(3) [OF hit, of p2 env2] .
  have c: "buildCount (snd ?first)
           = buildCount st + (if buildImageCache st ?k = None then 1 else 0)"
  proof (cases "buildImageCache st ?k")
    case None
    from fromBuild_miss(2) [OF None, of p1 env1] None show ?thesis by simp
  next
    case (Some v)
    from fromBuild_cached(3) [OF Some, of p1 env1] Some show ?thesis by simp
  qed
  show ?thesis
    unfolding Let_def using a b c u by blast
qed

theorem build_cache_same_image_name_witness:
  "let first = computeImageFromBuild sampleCollaborators () ''svc'' [] (BuildPath ''./app'')
                 initialBuildState;
       st2 = computeImagesFromBuilds sampleCollaborators
               [((), ''svc'', [], BuildPath ''./other'')] (snd first);
       second = computeImageFromBuild sampleCollaborators () ''svc'' [(''K'', Plain ''v'')]
                  (BuildSpec \<lparr>buildContext = Some ''./app'', buildDockerfile = None,
                              buildArgs = None, buildCacheFrom = None\<rparr>) st2
   in optImage (fst second) = optImage (fst first)
    \<and> buildCount (snd second) = buildCount st2
    \<and> (\<exists>u. optImage (fst first) = Deferred u
           \<and> buildImageCache (snd first)
                (getBuildImageName (sha1 sampleCollaborators) ''svc'' (BuildPath ''./app''))
              = Some u)
    \<and> buildCount (snd first)
        = buildCount initialBuildState
          + (if buildImageCache initialBuildState
                  (getBuildImageName (sha1 sampleCollaborators) ''svc'' (BuildPath ''./app''))
                = None
             then 1 else 0)"
proof -
  have k: "getBuildImageName (sha1 sampleCollaborators) ''svc''
             (BuildSpec \<lparr>buildContext = Some ''./app'', buildDockerfile = None,
                         buildArgs = None, buildCacheFrom = None\<rparr>)
           = getBuildImageName (sha1 sampleCollaborators) ''svc'' (BuildPath ''./app'')"
    by (simp add: getBuildImageName_def buildSignature_def)
  show ?thesis
    by (rule build_cache_same_image_name [OF k])
qed

text \<open>
  The claim as it was stated fails when the two components pass different names: the
  same build requested under the names \<^verbatim>\<open>a\<close> and \<^verbatim>\<open>b\<close> is built and pushed twice, and
  the second component does not receive the reference of the first.
\<close>

theorem build_cache_two_names_counterexample:
  "buildCount (computeImagesFromBuilds sampleCollaborators
                 [((), ''a'', [], BuildPath ''./app''), ((), ''b'', [], BuildPath ''./app'')]
                 initialBuildState) = 2
   \<and> optImage (fst (computeImageFromBuild sampleCollaborators () ''b'' [] (BuildPath ''./app'')
                      (snd (computeImageFromBuild sampleCollaborators () ''a'' []
                              (BuildPath ''./app'') initialBuildState))))
     \<noteq> optImage (fst (computeImageFromBuild sampleCollaborators () ''a'' []
                        (BuildPath ''./app'') initialBuildState))"
  by code_simp

subsection \<open>Failures of a task run\<close>

text \<open>
  Claim C9. Whenever \<^verbatim>\<open>runTask\<close> gets as far as sending the run request (it has found a
  container name) and the response reports one or more failures, the failures are
  written to the console and thrown as an error whose message carries the serialised
  failure list; nothing is returned to the caller. When the response reports no failure
  (no list, or an empty one) the function returns normally, without a value.
\<close>

theorem runTask_failures_are_thrown:
  assumes "fst (runTask isFargate usePrivateSubnets clusterArn taskDefArn securityGroupId
                  subnetIds containers (\<lambda>req. Inr res) options) \<noteq> Inl NoContainerName"
  shows "(\<forall>fs. failures res = Some fs \<and> fs \<noteq> [] \<longrightarrow>
            runTask isFargate usePrivateSubnets clusterArn taskDefArn securityGroupId
              subnetIds containers (\<lambda>req. Inr res) options
            = (Inl (FailedToStartTask fs), [fs]))
       \<and> (failures res = None \<or> failures res = Some [] \<longrightarrow>
            runTask isFargate usePrivateSubnets clusterArn taskDefArn securityGroupId
              subnetIds containers (\<lambda>req. Inr res) options
            = (Inr (), []))"
  using assms
  by (auto simp: runTask_def Let_def split: option.splits if_splits list.splits)

theorem runTask_failures_are_thrown_witness:
  "runTask True False ''cluster'' ''taskdef'' ''sg-1'' [''subnet-1'']
     [(''web'', Some [(''MODE'', ''a'')])]
     (\<lambda>req. Inr \<lparr>failures = Some [\<lparr>failureArn = Some ''arn:1'',
                                     failureReason = Some ''RESOURCE:MEMORY''\<rparr>],
                  tasks = None\<rparr>)
     \<lparr>optContainerName = None, optOs = None, optRunEnvironment = None\<rparr>
   = (Inl (FailedToStartTask [\<lparr>failureArn = Some ''arn:1'',
                               failureReason = Some ''RESOURCE:MEMORY''\<rparr>]),
      [[\<lparr>failureArn = Some ''arn:1'', failureReason = Some ''RESOURCE:MEMORY''\<rparr>]])
   \<and> runTask True False ''cluster'' ''taskdef'' ''sg-1'' [''subnet-1'']
       [(''web'', Some [(''MODE'', ''a'')])]
       (\<lambda>req. Inr \<lparr>failures = Some [], tasks = Some [''task-1'']\<rparr>)
       \<lparr>optContainerName = None, optOs = None, optRunEnvironment = None\<rparr>
     = (Inr (), [])"
proof -
  let ?run = "\<lambda>res. runTask True False ''cluster'' ''taskdef'' ''sg-1'' [''subnet-1'']
                      [(''web'', Some [(''MODE'', ''a'')])] (\<lambda>req. Inr res)
                      \<lparr>optContainerName = None, optOs = None, optRunEnvironment = None\<rparr>"
  let ?f = "\<lparr>failureArn = Some ''arn:1'', failureReason = Some ''RESOURCE:MEMORY''\<rparr>"
  have n: "fst (?run res) \<noteq> Inl NoContainerName" for res
    by (simp add: runTask_def Let_def split: option.splits)
  have a: "?run \<lparr>failures = Some [?f], tasks = None\<rparr> = (Inl (FailedToStartTask [?f]), [[?f]])"
    using runTask_failures_are_thrown [OF n [of "\<lparr>failures = Some [?f], tasks = None\<rparr>"]]
    by simp
  have b: "?run \<lparr>failures = Some [], tasks = Some [''task-1'']\<rparr> = (Inr (), [])"
    using runTask_failures_are_thrown
            [OF n [of "\<lparr>failures = Some [], tasks = Some [''task-1'']\<rparr>"]]
    by simp
  show ?thesis using a b by simp
qed

text \<open>
  The claim as it was stated fails: with one failure in the response the result is a
  thrown error, not a returned failure list.
\<close>

theorem runTask_failures_counterexample:
  "fst (runTask True False ''cluster'' ''taskdef'' ''sg-1'' [''subnet-1'']
          [(''web'', None)]
          (\<lambda>req. Inr \<lparr>failures = Some [\<lparr>failureArn = Some ''arn:1'',
                                          failureReason = Some ''RESOURCE:MEMORY''\<rparr>],
                       tasks = None\<rparr>)
          \<lparr>optContainerName = None, optOs = None, optRunEnvironment = None\<rparr>)
   = Inl (FailedToStartTask [\<lparr>failureArn = Some ''arn:1'',
                              failureReason = Some ''RESOURCE:MEMORY''\<rparr>])"
  by (simp add: runTask_def Let_def)

subsection \<open>Errors and termination of the NAT gateway wiring\<close>

lemma createGateways_error:
  "createGateways az ng i st = (Inl e, st') \<Longrightarrow> e = TypeError"
proof (induction az ng i st rule: createGateways.induct)
  case (1 az ng i this rs)
  show ?case
  proof (cases "i < ng")
    case False
    with "1.prems" show ?thesis by (simp add: createGateways.simps [of az ng i this rs])
  next
    case True
    show ?thesis
    proof (cases "if az = 0 then None else arrayGet (publicSubnets this) (i mod az)")
      case None
      with True "1.prems" show ?thesis
        by (simp add: createGateways.simps [of az ng i this rs] Let_def)
    next
      case (Some ps)
      with True "1.prems" "1.IH" [OF True refl refl refl Some] show ?thesis
        by (simp add: createGateways.simps [of az ng i this rs] Let_def)
    qed
  qed
qed

lemma routeBand_error:
  "routeBand az ng i j st = (Inl e, st') \<Longrightarrow> e = TypeError"
proof (induction az ng i j st rule: routeBand.induct)
  case (1 az ng i j rr this rs)
  show ?case
  proof (cases "j < az")
    case False
    with "1.prems" show ?thesis by (simp add: routeBand.simps [of az ng i j rr this rs])
  next
    case True
    show ?thesis
    proof (cases "arrayGet (privateSubnets this) (i + j)")
      case None
      with True "1.prems" show ?thesis
        by (simp add: routeBand.simps [of az ng i j rr this rs] Let_def)
    next
      case (Some ps)
      show ?thesis
      proof (cases "if j < ng then arrayGet (natGateways this) j
                    else arrayGet (natGateways this) rr")
        case None
        with True Some "1.prems" show ?thesis
          by (simp add: routeBand.simps [of az ng i j rr this rs] Let_def)
      next
        case gw: (Some gw)
        with True Some "1.prems" "1.IH" [OF True refl refl refl Some gw refl] show ?thesis
          by (simp add: routeBand.simps [of az ng i j rr this rs] Let_def)
      qed
    qed
  qed
qed

lemma routeBands_error:
  assumes "routeBands az ng n i st = Some (Inl e, st')"
  shows "e = TypeError"
proof -
  define y0 where "y0 = (Inl e :: error + unit, st')"
  have y0: "routeBands az ng n i st = Some y0"
    using assms by (simp add: y0_def)
  have "\<forall>e st'. y0 = (Inl e, st') \<longrightarrow> e = TypeError"
  proof (rule routeBands.raw_induct
           [where P = "\<lambda>az ng n i st y. \<forall>e st'. y = (Inl e, st') \<longrightarrow> e = TypeError",
            OF _ y0])
    fix rb :: "nat \<Rightarrow> nat \<Rightarrow> nat \<Rightarrow> nat \<Rightarrow> nat \<times> VpcState
                 \<Rightarrow> ((error + unit) \<times> nat \<times> VpcState) option"
      and az ng n i st and y :: "(error + unit) \<times> nat \<times> VpcState"
    assume IH: "\<And>az ng n i st y. rb az ng n i st = Some y
                  \<Longrightarrow> \<forall>e st'. y = (Inl e, st') \<longrightarrow> e = TypeError"
    assume eq: "(if i < n
                 then case routeBand az ng i 0 st of
                        (Inl e, st') \<Rightarrow> Some (Inl e, st')
                      | (Inr u, st') \<Rightarrow> rb az ng n (i + az) st'
                 else Some (Inr (), st)) = Some y"
    show "\<forall>e st'. y = (Inl e, st') \<longrightarrow> e = TypeError"
    proof (cases "i < n")
      case False
      with eq show ?thesis by auto
    next
      case True
      obtain r s where b: "routeBand az ng i 0 st = (r, s)"
        by (cases "routeBand az ng i 0 st")
      show ?thesis
      proof (cases r)
        case (Inl e)
        with True b eq routeBand_error [of az ng i 0 st e s] show ?thesis by auto
      next
        case (Inr u)
        with True b eq have "rb az ng n (i + az) s = Some y" by simp
        from IH [OF this] show ?thesis .
      qed
    qed
  qed
  then show ?thesis unfolding y0_def by blast
qed

lemma routeBands_total:
  assumes "0 < az"
  shows "routeBands az ng n i st \<noteq> None"
proof (induction "n - i" arbitrary: i st rule: less_induct)
  case less
  show ?case
  proof (cases "i < n")
    case False
    then show ?thesis by (subst routeBands.simps) simp
  next
    case True
    obtain r st' where b: "routeBand az ng i 0 st = (r, st')"
      by (cases "routeBand az ng i 0 st")
    show ?thesis
    proof (cases r)
      case (Inl e)
      with True b show ?thesis by (subst routeBands.simps) simp
    next
      case (Inr u)
      have "n - (i + az) < n - i" using True assms by simp
      from less [OF this, of st'] Inr True b show ?thesis
        by (subst routeBands.simps) simp
    qed
  qed
qed

lemma createGateways_no_zones:
  "0 < ng \<Longrightarrow> fst (createGateways 0 ng 0 (this, rs)) = Inl TypeError"
  by (simp add: createGateways.simps [of 0 ng 0 this rs] Let_def)

lemma createNatGateways_total: "createNatGateways az ng st \<noteq> None"
proof -
  obtain this rs where st: "st = (this, rs)" by (cases st)
  show ?thesis
  proof (cases "length (privateSubnets this) = 0 \<or> ng = 0 \<or> length (publicSubnets this) = 0")
    case True
    then show ?thesis by (simp add: createNatGateways_def st)
  next
    case False
    obtain r st1 where g: "createGateways az ng 0 (this, rs) = (r, st1)"
      by (cases "createGateways az ng 0 (this, rs)")
    show ?thesis
    proof (cases r)
      case (Inl e)
      with False g show ?thesis by (simp add: createNatGateways_def st)
    next
      case (Inr u)
      have "0 < az"
      proof (rule ccontr)
        assume "\<not> 0 < az"
        then have "az = 0" by simp
        with False createGateways_no_zones [of ng this rs] g Inr show False by simp
      qed
      obtain this1 rs1 where st1: "st1 = (this1, rs1)" by (cases st1)
      from routeBands_total [OF \<open>0 < az\<close>, of ng "length (privateSubnets this1)" 0 "(0, this1, rs1)"]
      obtain y where "routeBands az ng (length (privateSubnets this1)) 0 (0, this1, rs1) = Some y"
        by auto
      with False g Inr st1 show ?thesis
        by (cases y) (auto simp: createNatGateways_def st split: prod.splits)
    qed
  qed
qed

lemma createNatGateways_error:
  assumes "createNatGateways az ng st = Some (Inl e, st')"
  shows "e = TypeError"
proof -
  obtain this rs where st: "st = (this, rs)" by (cases st)
  from assms show ?thesis
    by (auto simp: createNatGateways_def st
             split: if_splits prod.splits sum.splits option.splits
             dest: createGateways_error routeBands_error)
qed

subsection \<open>Validation of the number of NAT gateways\<close>

text \<open>
  Claim C4. For a Vpc constructed from \<^verbatim>\<open>VpcArgs\<close>, with the number of zones defaulting
  to 2 and the number of NAT gateways defaulting to the number of zones: when there are
  more gateways than zones the constructor throws the validation error, and all it has
  registered by then is the component itself, no cloud resource; when there are not, the
  constructor returns or throws something else, but never this error.
\<close>

theorem natGateways_validation:
  "let az = (case numberOfAvailabilityZones a of None \<Rightarrow> 2 | Some z \<Rightarrow> z);
       ng = (case numberOfNatGateways a of None \<Rightarrow> az | Some g \<Rightarrow> g)
   in (ng > az \<longrightarrow>
         newVpc topology name (NewArgs a) rs
         = Some (Inl (NatGatewaysExceedZones ng az),
                 rs @ [ComponentResource ''awsinfra:x:ec2:Vpc'' name]))
    \<and> (ng \<le> az \<longrightarrow>
         (\<exists>r rs'. newVpc topology name (NewArgs a) rs = Some (r, rs')
                  \<and> (\<forall>g z. r \<noteq> Inl (NatGatewaysExceedZones g z))))"
proof -
  obtain az where az: "(case numberOfAvailabilityZones a of None \<Rightarrow> 2 | Some z \<Rightarrow> z) = az"
    by simp
  obtain ng
    where ng: "(case numberOfNatGateways a of
                  None \<Rightarrow> (case numberOfAvailabilityZones a of None \<Rightarrow> 2 | Some z \<Rightarrow> z)
                | Some g \<Rightarrow> g) = ng"
    by simp
  have ng': "(case numberOfNatGateways a of None \<Rightarrow> az | Some g \<Rightarrow> g) = ng"
    using az ng by (cases "numberOfNatGateways a") simp_all
  have over: "newVpc topology name (NewArgs a) rs
              = Some (Inl (NatGatewaysExceedZones ng az),
                      rs @ [ComponentResource ''awsinfra:x:ec2:Vpc'' name])"
    if "ng > az"
    using that by (simp add: newVpc_def Let_def az ng)
  have within: "\<exists>r rs'. newVpc topology name (NewArgs a) rs = Some (r, rs')
                  \<and> (\<forall>g z. r \<noteq> Inl (NatGatewaysExceedZones g z))"
    if le: "ng \<le> az"
  proof -
    let ?rs1 = "rs @ [ComponentResource ''awsinfra:x:ec2:Vpc'' name,
                      CustomResource ''aws.ec2.Vpc'' name]"
    let ?args = "case subnets a of
                   None \<Rightarrow> [\<lparr>subnetType = Public, subnetArgsName = None, cidrMask = None\<rparr>,
                             \<lparr>subnetType = Private, subnetArgsName = None, cidrMask = None\<rparr>]
                 | Some s \<Rightarrow> s"
    let ?cidr = "case cidrBlock a of None \<Rightarrow> ''10.0.0.0/16'' | Some c \<Rightarrow> c"
    obtain t st2 where t: "topology name ?cidr az ?args
                             (freshVpc\<lparr>vpcId := Some (Deferred name)\<rparr>, ?rs1) = (t, st2)"
      by (cases "topology name ?cidr az ?args (freshVpc\<lparr>vpcId := Some (Deferred name)\<rparr>, ?rs1)")
    show ?thesis
    proof (cases t)
      case (Inl m)
      with t le show ?thesis
        by (cases st2) (simp add: newVpc_def Let_def az ng)
    next
      case (Inr u)
      obtain igw this3 rs3 where g: "createInternetGateway name st2 = (igw, (this3, rs3))"
        by (cases "createInternetGateway name st2") auto
      obtain r4 this4 rs4
        where n: "createNatGateways az ng (this3\<lparr>internetGateway := igw\<rparr>, rs3)
                  = Some (r4, (this4, rs4))"
        using createNatGateways_total [of az ng "(this3\<lparr>internetGateway := igw\<rparr>, rs3)"]
        by (cases "createNatGateways az ng (this3\<lparr>internetGateway := igw\<rparr>, rs3)") auto
      show ?thesis
      proof (cases r4)
        case e: (Inl e)
        with n have "e = TypeError" by (auto dest: createNatGateways_error)
        with e n g t Inr le show ?thesis
          by (simp add: newVpc_def Let_def az ng)
      next
        case r: (Inr v)
        with n g t Inr le show ?thesis
          by (simp add: newVpc_def Let_def az ng)
      qed
    qed
  qed
  show ?thesis
    unfolding Let_def az ng' using over within by simp
qed

theorem natGateways_validation_witness:
  "newVpc (\<lambda>name cidr az args st. (Inr (), st)) ''net''
     (NewArgs \<lparr>subnets = None, numberOfAvailabilityZones = Some 2,
               numberOfNatGateways = Some 3, cidrBlock = None\<rparr>) []
   = Some (Inl (NatGatewaysExceedZones 3 2), [ComponentResource ''awsinfra:x:ec2:Vpc'' ''net''])
   \<and> (\<exists>r rs'. newVpc (\<lambda>name cidr az args st. (Inr (), st)) ''net''
                 (NewArgs \<lparr>subnets = None, numberOfAvailabilityZones = None,
                           numberOfNatGateways = None, cidrBlock = None\<rparr>) []
               = Some (r, rs')
             \<and> (\<forall>g z. r \<noteq> Inl (NatGatewaysExceedZones g z)))"
  using natGateways_validation
          [of "\<lparr>subnets = None, numberOfAvailabilityZones = Some 2,
                numberOfNatGateways = Some 3, cidrBlock = None\<rparr>"
              "\<lambda>name cidr az args st. (Inr (), st)" "''net''" "[]"]
        natGateways_validation
          [of "\<lparr>subnets = None, numberOfAvailabilityZones = None,
                numberOfNatGateways = None, cidrBlock = None\<rparr>"
              "\<lambda>name cidr az args st. (Inr (), st)" "''net''" "[]"]
  by (simp add: Let_def)

subsection \<open>The default Vpc\<close>

lemma newVpc_existing:
  "newVpc topology name
     (ExistingArgs \<lparr>existingVpcId = Deferred i, existingPublicSubnetIds = pub,
                    existingPrivateSubnetIds = priv, existingIsolatedSubnetIds = isol,
                    existingSecurityGroupIds = sg\<rparr>) rs
   = Some (Inr (freshVpc\<lparr>vpcId := Some (Deferred i),
                         publicSubnetIds := createOutputs pub,
                         privateSubnetIds := createOutputs priv,
                         isolatedSubnetIds := createOutputs isol\<rparr>),
           rs @ [ComponentResource ''awsinfra:x:ec2:Vpc'' name])"
  by (simp add: newVpc_def Let_def)

text \<open>
  Claim C10. A call of \<^verbatim>\<open>Vpc.getDefault\<close> made while \<^verbatim>\<open>defaultVpc\<close> is unset returns the
  unset value and leaves everything as it was: no lookup is issued, no resource is
  registered, the cache stays unset. This holds for the first call of a process. Whenever
  a call does issue a lookup, register a resource or change the cache, the cache was set
  before the call; and with the cache set, the call does issue the three lookups,
  constructs \<^verbatim>\<open>default-vpc\<close> and stores it in the cache.
\<close>

theorem getDefault_returns_unset_cache:
  "(defaultVpc m = None \<longrightarrow> getDefault topology lk m = Some (Inr None, m))
   \<and> getDefault topology lk initialVpcModule = Some (Inr None, initialVpcModule)
   \<and> (\<forall>r m'. getDefault topology lk m = Some (r, m')
              \<and> (invokes m' \<noteq> invokes m \<or> resources m' \<noteq> resources m
                  \<or> defaultVpc m' \<noteq> defaultVpc m \<or> r \<noteq> Inr None)
            \<longrightarrow> defaultVpc m \<noteq> None)
   \<and> (defaultVpc m \<noteq> None \<longrightarrow>
        (\<exists>vpc m'. getDefault topology lk m = Some (Inr (Some vpc), m')
                  \<and> invokes m' = invokes m @ [GetVpc, GetSubnetIds, GetSecurityGroup]
                  \<and> resources m'
                      = resources m @ [ComponentResource ''awsinfra:x:ec2:Vpc'' ''default-vpc'']
                  \<and> defaultVpc m' = Some vpc))"
proof -
  have a: "getDefault topology lk m = Some (Inr None, m)" if "defaultVpc m = None" for m
    using that by (simp add: getDefault_def)
  have b: "\<exists>vpc m'. getDefault topology lk m = Some (Inr (Some vpc), m')
                  \<and> invokes m' = invokes m @ [GetVpc, GetSubnetIds, GetSecurityGroup]
                  \<and> resources m'
                      = resources m @ [ComponentResource ''awsinfra:x:ec2:Vpc'' ''default-vpc'']
                  \<and> defaultVpc m' = Some vpc"
    if "defaultVpc m \<noteq> None"
    using that by (auto simp: getDefault_def Let_def newVpc_existing)
  have c: "defaultVpc initialVpcModule = None"
    by (simp add: initialVpcModule_def)
  show ?thesis
    using a [of m] a [OF c] b by (cases "defaultVpc m") auto
qed

theorem getDefault_returns_unset_cache_witness:
  "getDefault (\<lambda>name cidr az args st. (Inr (), st))
     \<lparr>lookupVpcId = ''vpc-1'', lookupSubnet0 = ''subnet-a'', lookupSubnet1 = ''subnet-b'',
      lookupSecurityGroup = ''sg-1''\<rparr>
     \<lparr>defaultVpc = None, resources = [], invokes = []\<rparr>
   = Some (Inr None, \<lparr>defaultVpc = None, resources = [], invokes = []\<rparr>)
   \<and> (\<exists>vpc m'. getDefault (\<lambda>name cidr az args st. (Inr (), st))
                  \<lparr>lookupVpcId = ''vpc-1'', lookupSubnet0 = ''subnet-a'',
                   lookupSubnet1 = ''subnet-b'', lookupSecurityGroup = ''sg-1''\<rparr>
                  \<lparr>defaultVpc = Some freshVpc, resources = [], invokes = []\<rparr>
                = Some (Inr (Some vpc), m')
              \<and> invokes m' = [GetVpc, GetSubnetIds, GetSecurityGroup])"
proof -
  let ?topo = "\<lambda>name cidr az args st. (Inr (), st)
                 :: (string + unit) \<times> VpcState"
  let ?lk = "\<lparr>lookupVpcId = ''vpc-1'', lookupSubnet0 = ''subnet-a'',
              lookupSubnet1 = ''subnet-b'', lookupSecurityGroup = ''sg-1''\<rparr>"
  let ?m0 = "\<lparr>defaultVpc = None, resources = [], invokes = []\<rparr>"
  let ?m1 = "\<lparr>defaultVpc = Some freshVpc, resources = [], invokes = []\<rparr>"
  have a: "getDefault ?topo ?lk ?m0 = Some (Inr None, ?m0)"
    using getDefault_returns_unset_cache
            [where m = ?m0 and topology = ?topo and lk = ?lk, THEN conjunct1]
    by simp
  have "defaultVpc ?m1 \<noteq> None" by simp
  with getDefault_returns_unset_cache
         [where m = ?m1 and topology = ?topo and lk = ?lk,
          THEN conjunct2, THEN conjunct2, THEN conjunct2]
  obtain vpc m' where "getDefault ?topo ?lk ?m1 = Some (Inr (Some vpc), m')"
      "invokes m' = invokes ?m1 @ [GetVpc, GetSubnetIds, GetSecurityGroup]"
    by blast
  then have b: "\<exists>vpc m'. getDefault ?topo ?lk ?m1 = Some (Inr (Some vpc), m')
                  \<and> invokes m' = [GetVpc, GetSubnetIds, GetSecurityGroup]"
    by auto
  show ?thesis using a b by blast
qed

subsection \<open>Routing of the private subnets to the NAT gateways\<close>

lemma roundRobinCounter_Suc:
  "roundRobinCounter az ng (Suc p) = roundRobinCounter az ng p + (if ng \<le> p mod az then 1 else 0)"
  by (simp add: roundRobinCounter_def)

lemma routingPost_compose:
  assumes A: "routingPost az ng lo mid this (Inr (), rr1, this1, rs1)"
    and B: "routingPost az ng mid hi this1 res"
    and le: "lo \<le> mid" "mid \<le> hi" "hi \<le> length (privateSubnets this)"
  shows "routingPost az ng lo hi this res"
proof -
  obtain r rr' this' rs' where res: "res = (r, rr', this', rs')"
    by (cases res) auto
  let ?P = "privateSubnets this" and ?P1 = "privateSubnets this1" and ?P' = "privateSubnets this'"
  let ?G = "natGateways this"
  from A have g1: "natGateways this1 = ?G" and l1: "length ?P1 = length ?P"
    and out1: "\<And>p. p < length ?P \<Longrightarrow> p < lo \<or> mid \<le> p \<Longrightarrow> ?P1 ! p = ?P ! p"
    and in1: "\<And>p. lo \<le> p \<Longrightarrow> p < mid \<Longrightarrow> routedTo az ng ?G p (?P ! p) (?P1 ! p)"
    and rr1: "rr1 = roundRobinCounter az ng mid"
    unfolding routingPost_def by auto
  from B res g1 l1 have g': "natGateways this' = ?G" and l': "length ?P' = length ?P"
    and out': "\<And>p. p < length ?P \<Longrightarrow> p < mid \<or> hi \<le> p \<Longrightarrow> ?P' ! p = ?P1 ! p"
    and in': "\<And>p. mid \<le> p \<Longrightarrow> p < hi \<Longrightarrow>
                ?P' ! p = ?P1 ! p \<or> routedTo az ng ?G p (?P1 ! p) (?P' ! p)"
    and ok': "r = Inr () \<Longrightarrow> rr' = roundRobinCounter az ng hi"
    and okin': "\<And>p. r = Inr () \<Longrightarrow> mid \<le> p \<Longrightarrow> p < hi \<Longrightarrow>
                 routedTo az ng ?G p (?P1 ! p) (?P' ! p)"
    and range': "(\<forall>p. mid \<le> p \<and> p < hi \<longrightarrow> selectedGateway az ng p < length ?G)
                   \<Longrightarrow> r = Inr ()"
    and form': "r = Inr () \<or> r = Inl TypeError"
    unfolding routingPost_def by auto
  have c3: "?P' ! p = ?P ! p" if "p < length ?P" "p < lo \<or> hi \<le> p" for p
    using that out' [of p] out1 [of p] le by auto
  have low: "routedTo az ng ?G p (?P ! p) (?P' ! p)" if "lo \<le> p" "p < mid" for p
    using that in1 [of p] out' [of p] le by auto
  have c4: "?P' ! p = ?P ! p \<or> routedTo az ng ?G p (?P ! p) (?P' ! p)"
    if "lo \<le> p" "p < hi" for p
  proof (cases "p < mid")
    case True
    with that low show ?thesis by simp
  next
    case False
    with that in' [of p] out1 [of p] le show ?thesis by auto
  qed
  have c5: "routedTo az ng ?G p (?P ! p) (?P' ! p)" if "r = Inr ()" "lo \<le> p" "p < hi" for p
  proof (cases "p < mid")
    case True
    with that low show ?thesis by simp
  next
    case False
    with that okin' [of p] out1 [of p] le show ?thesis by auto
  qed
  have c6: "r = Inr ()"
    if "\<forall>p. lo \<le> p \<and> p < hi \<longrightarrow> selectedGateway az ng p < length ?G"
    using that le range' by auto
  show ?thesis
    unfolding routingPost_def res using g' l' c3 c4 c5 c6 ok' form' by simp
qed

lemma routingPost_throw:
  assumes A: "routingPost az ng lo mid this (Inl e, st)"
    and le: "lo \<le> mid" "mid \<le> hi" "hi \<le> length (privateSubnets this)"
  shows "routingPost az ng lo hi this (Inl e, st)"
proof -
  obtain rr' this' rs' where st: "st = (rr', this', rs')"
    by (cases st) auto
  from A have g: "natGateways this' = natGateways this"
    and l: "length (privateSubnets this') = length (privateSubnets this)"
    and out: "\<And>p. p < length (privateSubnets this) \<Longrightarrow> p < lo \<or> mid \<le> p
                \<Longrightarrow> privateSubnets this' ! p = privateSubnets this ! p"
    and inn: "\<And>p. lo \<le> p \<Longrightarrow> p < mid \<Longrightarrow>
                privateSubnets this' ! p = privateSubnets this ! p
                \<or> routedTo az ng (natGateways this) p
                     (privateSubnets this ! p) (privateSubnets this' ! p)"
    and range: "\<not> (\<forall>p. lo \<le> p \<and> p < mid
                       \<longrightarrow> selectedGateway az ng p < length (natGateways this))"
    and form: "e = TypeError"
    unfolding routingPost_def st by auto
  have c4: "privateSubnets this' ! p = privateSubnets this ! p
            \<or> routedTo az ng (natGateways this) p
                 (privateSubnets this ! p) (privateSubnets this' ! p)"
    if "lo \<le> p" "p < hi" for p
  proof (cases "p < mid")
    case True
    with that inn show ?thesis by simp
  next
    case False
    with that out [of p] le show ?thesis by auto
  qed
  have c3: "privateSubnets this' ! p = privateSubnets this ! p"
    if "p < length (privateSubnets this)" "p < lo \<or> hi \<le> p" for p
    using that out [of p] le by auto
  have c6: "\<not> (\<forall>p. lo \<le> p \<and> p < hi
                  \<longrightarrow> selectedGateway az ng p < length (natGateways this))"
    using range le by (meson le_trans less_le_trans)
  show ?thesis
    unfolding routingPost_def st using g l c3 c4 c6 form by simp
qed


lemma routeBand_post:
  assumes "i mod az = 0" "j \<le> az" "i + az \<le> length (privateSubnets this)"
    and "rr = roundRobinCounter az ng (i + j)"
  shows "routingPost az ng (i + j) (i + az) this (routeBand az ng i j (rr, this, rs))"
  using assms
proof (induction "az - j" arbitrary: j rr this rs)
  case 0
  then have j: "j = az" by simp
  have eq: "routeBand az ng i j (rr, this, rs) = (Inr (), (rr, this, rs))"
    by (subst routeBand.simps) (simp add: j)
  show ?case
    unfolding eq by (auto simp: routingPost_def "0.prems"(4) j)
next
  case (Suc d)
  let ?P = "privateSubnets this" and ?G = "natGateways this"
  let ?p = "i + j"
  from Suc.hyps(2) have jlt: "j < az" by simp
  with Suc.prems have plt: "?p < length ?P" by simp
  have m: "?p mod az = j"
    using Suc.prems(1) jlt by (metis mod_add_left_eq add_0 mod_less)
  let ?sel = "selectedGateway az ng ?p"
  have sel: "?sel = (if j < ng then j else rr)"
    by (simp add: selectedGateway_def m Suc.prems(4))
  let ?rr1 = "roundRobinCounter az ng (Suc ?p)"
  have rr1: "?rr1 = (if j < ng then rr else Suc rr)"
    by (simp add: roundRobinCounter_Suc m Suc.prems(4))
  have ps: "arrayGet ?P ?p = Some (?P ! ?p)"
    using plt by (simp add: arrayGet_def)
  have gwsel: "(if j < ng then arrayGet ?G j else arrayGet ?G rr) = arrayGet ?G ?sel"
    by (simp add: sel)
  show ?case
  proof (cases "?sel < length ?G")
    case False
    then have none: "arrayGet ?G ?sel = None" by (simp add: arrayGet_def)
    have eq: "routeBand az ng i j (rr, this, rs) = (Inl TypeError, (?rr1, this, rs))"
      using jlt ps none gwsel
      by (simp add: routeBand.simps [of az ng i j rr this rs] Let_def rr1)
    have one: "routingPost az ng ?p (Suc ?p) this (Inl TypeError, (?rr1, this, rs))"
      using False by (auto simp: routingPost_def le_less_Suc_eq)
    have "routingPost az ng ?p (i + az) this (Inl TypeError, (?rr1, this, rs))"
      using routingPost_throw [OF one] jlt Suc.prems(3) by simp
    with eq show ?thesis by simp
  next
    case True
    then have some: "arrayGet ?G ?sel = Some (?G ! ?sel)" by (simp add: arrayGet_def)
    let ?r = "natRoute j (?P ! ?p) (?G ! ?sel)"
    let ?this1 = "this\<lparr>privateSubnets := ?P[?p := addRoute (?P ! ?p) ?r]\<rparr>"
    let ?rs1 = "rs @ [CustomResource ''aws.ec2.Route'' (routeName ?r)]"
    have eq: "routeBand az ng i j (rr, this, rs)
              = routeBand az ng i (Suc j) (?rr1, ?this1, ?rs1)"
      using jlt ps some gwsel
      by (simp add: routeBand.simps [of az ng i j rr this rs] Let_def rr1)
    have one: "routingPost az ng ?p (Suc ?p) this (Inr (), (?rr1, ?this1, ?rs1))"
      using True plt by (auto simp: routingPost_def routedTo_def m le_less_Suc_eq)
    have d: "d = az - Suc j" using Suc.hyps(2) by simp
    have rest: "routingPost az ng (i + Suc j) (i + az) ?this1
                  (routeBand az ng i (Suc j) (?rr1, ?this1, ?rs1))"
      using Suc.hyps(1) [OF d Suc.prems(1), of ?this1 ?rr1 ?rs1] jlt Suc.prems(3) by simp
    have "routingPost az ng ?p (i + az) this (routeBand az ng i (Suc j) (?rr1, ?this1, ?rs1))"
      using routingPost_compose [OF one, of "i + az"] rest jlt Suc.prems(3) by simp
    with eq show ?thesis by simp
  qed
qed


lemma routeBands_post:
  assumes "0 < az"
  shows "i mod az = 0 \<Longrightarrow> n = i + k * az \<Longrightarrow> n \<le> length (privateSubnets this)
         \<Longrightarrow> rr = roundRobinCounter az ng i
         \<Longrightarrow> \<exists>res. routeBands az ng n i (rr, this, rs) = Some res
                    \<and> routingPost az ng i n this res"
proof (induction k arbitrary: i rr this rs)
  case 0
  then have "routeBands az ng n i (rr, this, rs) = Some (Inr (), (rr, this, rs))"
    by (subst routeBands.simps) simp
  moreover have "routingPost az ng i n this (Inr (), (rr, this, rs))"
    using 0 by (auto simp: routingPost_def)
  ultimately show ?case by simp
next
  case (Suc k)
  from Suc.prems assms have lt: "i < n" and band: "i + az \<le> n" by simp_all
  have bp: "routingPost az ng i (i + az) this (routeBand az ng i 0 (rr, this, rs))"
    using routeBand_post [of i az 0 this rr ng rs] Suc.prems band by simp
  obtain r rr1 this1 rs1 where b: "routeBand az ng i 0 (rr, this, rs) = (r, (rr1, this1, rs1))"
    by (cases "routeBand az ng i 0 (rr, this, rs)") auto
  show ?case
  proof (cases r)
    case (Inl e)
    have "routeBands az ng n i (rr, this, rs) = Some (Inl e, (rr1, this1, rs1))"
      using lt b Inl by (subst routeBands.simps) simp
    moreover have "routingPost az ng i n this (Inl e, (rr1, this1, rs1))"
      using routingPost_throw [of az ng i "i + az" this e "(rr1, this1, rs1)" n]
            bp b Inl band Suc.prems(3)
      by simp
    ultimately show ?thesis by simp
  next
    case (Inr u)
    have step: "routeBands az ng n i (rr, this, rs) = routeBands az ng n (i + az) (rr1, this1, rs1)"
      using lt b Inr by (subst routeBands.simps) simp
    from bp b Inr have one: "routingPost az ng i (i + az) this (Inr (), (rr1, this1, rs1))"
      by simp
    then have len1: "length (privateSubnets this1) = length (privateSubnets this)"
      and rr1: "rr1 = roundRobinCounter az ng (i + az)"
      by (simp_all add: routingPost_def)
    have a1: "(i + az) mod az = 0" using Suc.prems(1) by simp
    have a2: "n = (i + az) + k * az" using Suc.prems(2) by simp
    have a3: "n \<le> length (privateSubnets this1)" using Suc.prems(3) len1 by simp
    from Suc.IH [OF a1 a2 a3 rr1, of rs1]
    obtain res
      where res: "routeBands az ng n (i + az) (rr1, this1, rs1) = Some res"
        "routingPost az ng (i + az) n this1 res"
      by blast
    have "routingPost az ng i n this res"
      using routingPost_compose [OF one res(2)] band Suc.prems(3) by simp
    with step res(1) show ?thesis by simp
  qed
qed

lemma createGateways_ok:
  assumes "0 < az"
  shows "i \<le> ng \<Longrightarrow> \<forall>i' < ng. i' mod az < length (publicSubnets this)
         \<Longrightarrow> \<exists>rs'. createGateways az ng i (this, rs)
                    = (Inr (),
                       (this\<lparr>natGateways := natGateways this
                               @ map (\<lambda>i'. newNatGateway i' (publicSubnets this ! (i' mod az)))
                                   [i..<ng]\<rparr>,
                        rs'))"
proof (induction "ng - i" arbitrary: i this rs)
  case 0
  then have "i = ng" by simp
  then have "createGateways az ng i (this, rs) = (Inr (), (this, rs))"
    by (subst createGateways.simps) simp
  with \<open>i = ng\<close> show ?case by simp
next
  case (Suc d)
  then have lt: "i < ng" by simp
  let ?ps = "publicSubnets this ! (i mod az)"
  let ?this1 = "this\<lparr>natGateways := natGateways this @ [newNatGateway i ?ps]\<rparr>"
  let ?rs1 = "rs @ [CustomResource ''aws.ec2.Eip'' (''nat-'' @ showNat i),
                    CustomResource ''aws.ec2.NatGateway'' (''nat-'' @ showNat i)]"
  have get: "arrayGet (publicSubnets this) (i mod az) = Some ?ps"
    using Suc.prems lt by (simp add: arrayGet_def)
  have eq: "createGateways az ng i (this, rs) = createGateways az ng (Suc i) (?this1, ?rs1)"
    using lt get assms
    by (simp add: createGateways.simps [of az ng i this rs] Let_def)
  have d: "d = ng - Suc i" using Suc.hyps(2) by simp
  from Suc.hyps(1) [OF d, of ?this1 ?rs1] lt Suc.prems
  obtain rs' where "createGateways az ng (Suc i) (?this1, ?rs1)
                    = (Inr (),
                       (?this1\<lparr>natGateways := natGateways ?this1
                               @ map (\<lambda>i'. newNatGateway i' (publicSubnets ?this1 ! (i' mod az)))
                                   [Suc i..<ng]\<rparr>,
                        rs'))"
    by auto
  with eq lt show ?case
    by (simp add: upt_conv_Cons)
qed


text \<open>
  The routing in general. Let the private subnets come in \<open>k\<close> bands of \<open>az\<close> zones,
  with a public subnet for every zone and no gateway yet. \<^verbatim>\<open>createNatGateways\<close> returns
  or throws; it has created the gateways \<^verbatim>\<open>nat-0\<close>, ... in the public subnets of the zones
  \<open>0, 1, ...\<close> (modulo \<open>az\<close>); every private subnet that has been routed has gained exactly
  one route, and that route goes to the gateway of its band position \<open>j\<close> when
  \<open>j < ng\<close> and otherwise to the gateway at the value of the round-robin counter, which
  started at 0 and has counted every earlier subnet routed through it in all bands
  (it is not reset at a band boundary). The run ends normally, with every private subnet
  routed, exactly when every selected index is below the number of gateways; otherwise it
  throws a \<^verbatim>\<open>TypeError\<close>.
\<close>

lemma nat_gateway_routing:
  assumes fresh: "natGateways this = []"
    and nonempty: "privateSubnets this \<noteq> []" "publicSubnets this \<noteq> []" "0 < ng"
    and az: "0 < az"
    and bands: "length (privateSubnets this) = k * az"
    and zones: "az \<le> length (publicSubnets this)"
  shows "\<exists>r this' rs'.
           createNatGateways az ng (this, rs) = Some (r, (this', rs'))
         \<and> natGateways this'
             = map (\<lambda>i. newNatGateway i (publicSubnets this ! (i mod az))) [0..<ng]
         \<and> length (privateSubnets this') = length (privateSubnets this)
         \<and> (\<forall>p < length (privateSubnets this).
               privateSubnets this' ! p = privateSubnets this ! p
               \<or> routedTo az ng (natGateways this') p
                    (privateSubnets this ! p) (privateSubnets this' ! p))
         \<and> (r = Inr () \<longrightarrow>
               (\<forall>p < length (privateSubnets this).
                  routedTo az ng (natGateways this') p
                    (privateSubnets this ! p) (privateSubnets this' ! p)))
         \<and> ((r = Inr ())
              = (\<forall>p < length (privateSubnets this). selectedGateway az ng p < ng))
         \<and> (r = Inr () \<or> r = Inl TypeError)"
proof -
  let ?n = "length (privateSubnets this)"
  let ?G = "map (\<lambda>i. newNatGateway i (publicSubnets this ! (i mod az))) [0..<ng]"
  let ?this1 = "this\<lparr>natGateways := ?G\<rparr>"
  have pubs: "\<forall>i' < ng. i' mod az < length (publicSubnets this)"
    using az zones by (meson less_le_trans mod_less_divisor)
  from createGateways_ok [OF az, of 0 ng this rs] pubs fresh
  obtain rs1 where cg: "createGateways az ng 0 (this, rs) = (Inr (), (?this1, rs1))"
    by auto
  have "\<exists>res. routeBands az ng ?n 0 (0, ?this1, rs1) = Some res
             \<and> routingPost az ng 0 ?n ?this1 res"
    using routeBands_post [OF az, of 0 ?n k ?this1 0 ng rs1] bands
    by (simp add: roundRobinCounter_def)
  then obtain res
    where rb0: "routeBands az ng ?n 0 (0, ?this1, rs1) = Some res"
      and post0: "routingPost az ng 0 ?n ?this1 res"
    by blast
  obtain r rr' this' rs' where res: "res = (r, (rr', this', rs'))"
    by (cases res) auto
  note rb = rb0 [unfolded res] and post = post0 [unfolded res]
  have run: "createNatGateways az ng (this, rs) = Some (r, (this', rs'))"
    using nonempty cg rb by (simp add: createNatGateways_def)
  from post have g: "natGateways this' = ?G"
    and l: "length (privateSubnets this') = ?n"
    and some: "\<And>p. p < ?n \<Longrightarrow>
                 privateSubnets this' ! p = privateSubnets this ! p
                 \<or> routedTo az ng ?G p (privateSubnets this ! p) (privateSubnets this' ! p)"
    and all: "\<And>p. r = Inr () \<Longrightarrow> p < ?n \<Longrightarrow>
                routedTo az ng ?G p (privateSubnets this ! p) (privateSubnets this' ! p)"
    and range: "(\<forall>p. p < ?n \<longrightarrow> selectedGateway az ng p < ng) \<Longrightarrow> r = Inr ()"
    and form: "r = Inr () \<or> r = Inl TypeError"
    unfolding routingPost_def by auto
  have iff: "(r = Inr ()) = (\<forall>p < ?n. selectedGateway az ng p < ng)"
  proof
    assume "r = Inr ()"
    with all show "\<forall>p < ?n. selectedGateway az ng p < ng"
      by (auto simp: routedTo_def)
  next
    assume "\<forall>p < ?n. selectedGateway az ng p < ng"
    with range show "r = Inr ()" by simp
  qed
  show ?thesis
    using run g l some all iff form by (intro exI [of _ r] exI [of _ this'] exI [of _ rs']) simp
qed


lemma nat_gateway_routing_example:
  "\<exists>r this' rs'.
     createNatGateways 3 2
       (freshVpc\<lparr>publicSubnets := [\<lparr>subnetName = ''public-0'', routes = []\<rparr>,
                                    \<lparr>subnetName = ''public-1'', routes = []\<rparr>,
                                    \<lparr>subnetName = ''public-2'', routes = []\<rparr>],
                 privateSubnets := [\<lparr>subnetName = ''a-0'', routes = []\<rparr>,
                                     \<lparr>subnetName = ''a-1'', routes = []\<rparr>,
                                     \<lparr>subnetName = ''a-2'', routes = []\<rparr>,
                                     \<lparr>subnetName = ''b-0'', routes = []\<rparr>,
                                     \<lparr>subnetName = ''b-1'', routes = []\<rparr>,
                                     \<lparr>subnetName = ''b-2'', routes = []\<rparr>]\<rparr>, [])
     = Some (r, (this', rs'))
   \<and> r = Inr ()
   \<and> map natSubnet (natGateways this') = [''public-0'', ''public-1'']
   \<and> map (\<lambda>s. map routeTarget (routes s)) (privateSubnets this')
       = [[NatGatewayId ''nat-0''], [NatGatewayId ''nat-1''], [NatGatewayId ''nat-0''],
          [NatGatewayId ''nat-0''], [NatGatewayId ''nat-1''], [NatGatewayId ''nat-1'']]"
proof -
  let ?vpc = "freshVpc\<lparr>publicSubnets := [\<lparr>subnetName = ''public-0'', routes = []\<rparr>,
                                          \<lparr>subnetName = ''public-1'', routes = []\<rparr>,
                                          \<lparr>subnetName = ''public-2'', routes = []\<rparr>],
                       privateSubnets := [\<lparr>subnetName = ''a-0'', routes = []\<rparr>,
                                           \<lparr>subnetName = ''a-1'', routes = []\<rparr>,
                                           \<lparr>subnetName = ''a-2'', routes = []\<rparr>,
                                           \<lparr>subnetName = ''b-0'', routes = []\<rparr>,
                                           \<lparr>subnetName = ''b-1'', routes = []\<rparr>,
                                           \<lparr>subnetName = ''b-2'', routes = []\<rparr>]\<rparr>"
  have h: "natGateways ?vpc = []" "privateSubnets ?vpc \<noteq> []" "publicSubnets ?vpc \<noteq> []"
      "(0::nat) < 2" "(0::nat) < 3" "length (privateSubnets ?vpc) = 2 * 3"
      "3 \<le> length (publicSubnets ?vpc)"
    by (simp_all add: freshVpc_def)
  from nat_gateway_routing [OF h, of "[]"]
  obtain r this' rs'
    where run: "createNatGateways 3 2 (?vpc, []) = Some (r, (this', rs'))"
      and g: "natGateways this'
              = map (\<lambda>i. newNatGateway i (publicSubnets ?vpc ! (i mod 3))) [0..<2]"
    by blast
  have e: "map_option (\<lambda>(r, this', rs').
                         (r, map (\<lambda>s. map routeTarget (routes s)) (privateSubnets this')))
             (createNatGateways 3 2 (?vpc, []))
           = Some (Inr (),
                   [[NatGatewayId ''nat-0''], [NatGatewayId ''nat-1''], [NatGatewayId ''nat-0''],
                    [NatGatewayId ''nat-0''], [NatGatewayId ''nat-1''], [NatGatewayId ''nat-1'']])"
    by code_simp
  have u: "[0..<2] = [0, Suc 0]"
    by (simp add: numeral_2_eq_2)
  have g': "map natSubnet (natGateways this') = [''public-0'', ''public-1'']"
    unfolding g u by (simp add: newNatGateway_def)
  from e run have r: "r = Inr ()"
    and t: "map (\<lambda>s. map routeTarget (routes s)) (privateSubnets this')
            = [[NatGatewayId ''nat-0''], [NatGatewayId ''nat-1''], [NatGatewayId ''nat-0''],
               [NatGatewayId ''nat-0''], [NatGatewayId ''nat-1''], [NatGatewayId ''nat-1'']]"
    by simp_all
  show ?thesis
    by (rule exI [of _ r], rule exI [of _ this'], rule exI [of _ rs'])
       (intro conjI run r g' t)
qed

text \<open>
  Claim C2. The round-robin counter is not reset at a band boundary, and it is not
  reduced modulo the number of gateways either: with two zones, one NAT gateway and two
  bands of private subnets, the subnets at band position 0 are routed to \<^verbatim>\<open>nat-0\<close>, the
  subnet at position 1 of the first band is routed through the counter at 0, and the
  subnet at position 1 of the second band reads \<^verbatim>\<open>natGateways[1]\<close> through the counter
  at 1, which is \<^verbatim>\<open>undefined\<close>; the run throws and that subnet is not routed to any
  gateway.
\<close>

theorem round_robin_counter_across_bands:
  "map_option (\<lambda>(r, this', rs').
                 (r, map (\<lambda>s. map routeTarget (routes s)) (privateSubnets this')))
     (createNatGateways 2 1
        (freshVpc\<lparr>publicSubnets := [\<lparr>subnetName = ''public-0'', routes = []\<rparr>,
                                     \<lparr>subnetName = ''public-1'', routes = []\<rparr>],
                  privateSubnets := [\<lparr>subnetName = ''a-0'', routes = []\<rparr>,
                                      \<lparr>subnetName = ''a-1'', routes = []\<rparr>,
                                      \<lparr>subnetName = ''b-0'', routes = []\<rparr>,
                                      \<lparr>subnetName = ''b-1'', routes = []\<rparr>]\<rparr>, []))
   = Some (Inl TypeError,
           [[NatGatewayId ''nat-0''], [NatGatewayId ''nat-0''], [NatGatewayId ''nat-0''], []])"
  by code_simp

text \<open>
  Claim C3. The accumulated round-robin index leaves the array: with three zones, one NAT gateway,
  three public and three private subnets, the third private subnet reads
  \<^verbatim>\<open>natGateways[1]\<close>, which is \<^verbatim>\<open>undefined\<close>; the run throws and the subnet has no route.
\<close>

theorem round_robin_index_out_of_bounds:
  "map_option (\<lambda>(r, this', rs').
                 (r, map (\<lambda>s. map routeTarget (routes s)) (privateSubnets this')))
     (createNatGateways 3 1
        (freshVpc\<lparr>publicSubnets := [\<lparr>subnetName = ''public-0'', routes = []\<rparr>,
                                     \<lparr>subnetName = ''public-1'', routes = []\<rparr>,
                                     \<lparr>subnetName = ''public-2'', routes = []\<rparr>],
                  privateSubnets := [\<lparr>subnetName = ''private-0'', routes = []\<rparr>,
                                      \<lparr>subnetName = ''private-1'', routes = []\<rparr>,
                                      \<lparr>subnetName = ''private-2'', routes = []\<rparr>]\<rparr>, []))
   = Some (Inl TypeError, [[NatGatewayId ''nat-0''], [NatGatewayId ''nat-0''], []])"
  by code_simp

subsection \<open>The CIDR partitioner\<close>



















end
